theory Spec2Isabelle
  imports Complex_Main "HOL-Library.Signed_Division" "HOL-Library.Multiset"
begin

section \<open>DPageIndicator: the current page\<close>

text \<open>
  The private data of \<^verbatim>\<open>DPageIndicator\<close> (dpageindicator.cpp): two C++ \<^verbatim>\<open>int\<close> fields.
  The constructor sets \<^verbatim>\<open>pageCount(3)\<close> and \<^verbatim>\<open>currentPage(1)\<close>; \<^verbatim>\<open>setPageCount\<close> stores
  any \<^verbatim>\<open>int\<close> it is given, without a check.
\<close>

record page_indicator =
  pageCount :: int
  currentPage :: int

definition initial_indicator :: page_indicator where
  "initial_indicator = \<lparr>pageCount = 3, currentPage = 1\<rparr>"

definition setPageCount :: "int \<Rightarrow> page_indicator \<Rightarrow> page_indicator" where
  "setPageCount cnt p = p\<lparr>pageCount := cnt\<rparr>"

text \<open>
  \<^verbatim>\<open>DPageIndicatorPrivate::setCurrentPage\<close>: the guard logs a warning and returns; past the
  guard the index is stored.
\<close>

definition setCurrentPage :: "int \<Rightarrow> page_indicator \<Rightarrow> page_indicator" where
  "setCurrentPage index p =
     (if index < -1 \<or> index \<ge> pageCount p then p
      else p\<lparr>currentPage := index\<rparr>)"


section \<open>DSimpleListView: data\<close>

text \<open>
  What can go wrong in the C++ where the model has to say so: an integer division by
  zero, \<^verbatim>\<open>QList::operator[]\<close> outside the list, a call through a null pointer, and the
  conversion to \<^verbatim>\<open>int\<close> of a \<^verbatim>\<open>double\<close> that is infinite, not a number or outside the
  range of \<^verbatim>\<open>int\<close>. Each of them ends the operation without a state.
\<close>

datatype fault = DivideByZero | IndexOutOfRange | NullPointer | FloatToIntUndefined

text \<open>
  The fields of \<^verbatim>\<open>DSimpleListViewPrivate\<close> that scrolling, selection, sorting and searching
  read or write, with \<^verbatim>\<open>columnVisibles\<close> of the public class and the widget's
  \<^verbatim>\<open>rect()\<close> (origin 0, 0) as \<open>rectWidth\<close> and \<open>rectHeight\<close>. An item is a
  \<^verbatim>\<open>DSimpleListItem*\<close>: a value of type \<open>'a\<close> stands for the pointer, so equality on
  \<open>'a\<close> is pointer identity. A \<^verbatim>\<open>QPointer\<close> is an \<open>option\<close>, and so are the two pointers
  that may be null: the list of sorting algorithms and the search algorithm. A C++
  \<^verbatim>\<open>int\<close> is an \<open>int\<close>. The products of the source (the total height of the items, an
  index times the row height) are reduced to 32 bits where they are computed; the sums
  and differences, of pixel positions and of indices, are left as they are. The fields that
  only track hovering (\<^verbatim>\<open>lastHoverItem\<close>, \<^verbatim>\<open>drawHoverItem\<close>, \<^verbatim>\<open>mouseHoverItem\<close>,
  \<^verbatim>\<open>lastHoverColumnIndex\<close>, \<^verbatim>\<open>titleHoverColumn\<close>, \<^verbatim>\<open>mouseAtScrollArea\<close>) and the
  hide timer of the scrollbar are left out: no operation below reads them.

  The last field is not a field of the class. \<^verbatim>\<open>std::max\<close>, \<^verbatim>\<open>std::min\<close> and \<^verbatim>\<open>qMin\<close>
  return a reference to one of their arguments, and three functions of the source
  (\<^verbatim>\<open>adjustRenderOffset\<close>, \<^verbatim>\<open>getScrollbarHeight\<close>, \<^verbatim>\<open>getScrollbarY\<close>) bind that reference
  to \<^verbatim>\<open>const auto& result\<close> and return \<^verbatim>\<open>result\<close>. When the argument chosen is a
  temporary, it has died at the end of the declaration and the function reads a dead
  object: the standard leaves the value undefined, and the compiled program goes on with
  whatever the memory holds. \<open>deadRead s v\<close> is the value such a read finds where a
  temporary of value \<open>v\<close> has died: the identity in a build that has left the memory
  alone, a constant such as 32767 in a build that has reused it.
\<close>

record 'a view =
  listItems :: "'a list"
  renderItems :: "'a list"
  selectionItems :: "'a list"
  lastSelectItem :: "'a option"
  columnTitles :: "string list"
  columnWidths :: "int list"
  columnVisibles :: "bool list"
  sortingAlgorithms :: "('a \<Rightarrow> 'a \<Rightarrow> bool \<Rightarrow> bool) list option"
  sortingOrderes :: "bool list"
  searchContent :: string
  searchAlgorithm :: "('a \<Rightarrow> string \<Rightarrow> bool) option"
  defaultSortingColumn :: int
  defaultSortingOrder :: bool
  isSingleSelect :: bool
  mouseDragScrollbar :: bool
  oldRenderOffset :: int
  renderOffset :: int
  rowHeight :: int
  scrollUnit :: int
  scrollbarMinHeight :: int
  scrollbarDragWidth :: int
  titleHeight :: int
  titlePressColumn :: int
  rectWidth :: int
  rectHeight :: int
  deadRead :: "int \<Rightarrow> int"

text \<open>
  The state the constructor leaves, in a widget of the given size. The class gives
  \<^verbatim>\<open>defaultSortingColumn\<close> and \<^verbatim>\<open>scrollUnit\<close> the initialiser 0 and the constructor does
  not touch them. The build is one in which a dead temporary still holds its value;
  the statements about every state cover every other build.
\<close>

definition initial_view :: "int \<Rightarrow> int \<Rightarrow> 'a view" where
  "initial_view w h =
     \<lparr>listItems = [], renderItems = [], selectionItems = [], lastSelectItem = None,
      columnTitles = [], columnWidths = [], columnVisibles = [],
      sortingAlgorithms = Some [], sortingOrderes = [],
      searchContent = [], searchAlgorithm = None,
      defaultSortingColumn = 0, defaultSortingOrder = False,
      isSingleSelect = False, mouseDragScrollbar = False,
      oldRenderOffset = 0, renderOffset = 0, rowHeight = 36, scrollUnit = 0,
      scrollbarMinHeight = 30, scrollbarDragWidth = 8,
      titleHeight = 0, titlePressColumn = -1, rectWidth = w, rectHeight = h,
      deadRead = (\<lambda>v. v)\<rparr>"

subsection \<open>QList and arithmetic helpers\<close>

text \<open>\<^verbatim>\<open>QList::indexOf\<close>: the first position of the value, or -1.\<close>

primrec indexOf :: "'a list \<Rightarrow> 'a \<Rightarrow> int" where
  "indexOf [] x = -1"
| "indexOf (y # ys) x =
     (if y = x then 0 else (let r = indexOf ys x in if r = -1 then -1 else r + 1))"

text \<open>\<^verbatim>\<open>indexOf\<close> of a \<^verbatim>\<open>QPointer\<close>: a null pointer is in no list of items.\<close>

definition indexOfPointer :: "'a list \<Rightarrow> 'a option \<Rightarrow> int" where
  "indexOfPointer xs p = (case p of None \<Rightarrow> -1 | Some x \<Rightarrow> indexOf xs x)"

text \<open>\<^verbatim>\<open>QList::operator[]\<close> with a C++ \<^verbatim>\<open>int\<close> index.\<close>

definition itemAt :: "'a list \<Rightarrow> int \<Rightarrow> fault + 'a" where
  "itemAt xs i = (if 0 \<le> i \<and> i < int (length xs) then Inr (xs ! nat i) else Inl IndexOutOfRange)"


text \<open>
  A value stored in a C++ \<^verbatim>\<open>int\<close>, reduced to 32 bits in two's complement.
\<close>

definition int32 :: "int \<Rightarrow> int" where
  "int32 x = (x + 2147483648) mod 4294967296 - 2147483648"

text \<open>
  A \<^verbatim>\<open>double\<close> is the real number it stands for, and every operation on doubles gives
  the exact result rounded to the nearest double, to the even one of two that are equally
  near. \<open>double_round\<close> is that rounding for a number in the normal range of the format:
  53 binary digits from the leading one. The exponent of the leading digit is found by
  doubling or halving, at most 1100 times, which covers the format. The operands in the
  source are numbers of 32 bits, their quotients and their products, all in the normal
  range or zero; a number of 32 bits is a double without rounding.
\<close>

fun exponent_below :: "nat \<Rightarrow> real \<Rightarrow> int \<Rightarrow> int" where
  "exponent_below 0 x e = e"
| "exponent_below (Suc n) x e = (if x < 1 then exponent_below n (2 * x) (e - 1) else e)"

fun exponent_above :: "nat \<Rightarrow> real \<Rightarrow> int \<Rightarrow> int" where
  "exponent_above 0 x e = e"
| "exponent_above (Suc n) x e = (if 2 \<le> x then exponent_above n (x / 2) (e + 1) else e)"

definition binary_exponent :: "real \<Rightarrow> int" where
  "binary_exponent x = (if x < 1 then exponent_below 1100 x 0 else exponent_above 1100 x 0)"

definition round_half_even :: "real \<Rightarrow> int" where
  "round_half_even q =
     (let f = \<lfloor>q\<rfloor>; d = q - real_of_int f
      in if d < 1 / 2 then f else if 1 / 2 < d then f + 1 else if even f then f else f + 1)"

definition double_round :: "real \<Rightarrow> real" where
  "double_round x =
     (if x = 0 then 0
      else (let e = binary_exponent \<bar>x\<bar>;
                u = (if 52 \<le> e then 2 ^ nat (e - 52) else 1 / 2 ^ nat (52 - e))
            in sgn x * real_of_int (round_half_even (\<bar>x\<bar> / u)) * u))"

text \<open>
  The conversion of a \<^verbatim>\<open>double\<close> to \<^verbatim>\<open>int\<close> drops the fraction, and is undefined when
  what is left is not an \<^verbatim>\<open>int\<close>.
\<close>

definition double_to_int :: "real \<Rightarrow> fault + int" where
  "double_to_int r =
     (let i = (if r < 0 then \<lceil>r\<rceil> else \<lfloor>r\<rfloor>)
      in if - 2147483648 \<le> i \<and> i \<le> 2147483647 then Inr i else Inl FloatToIntUndefined)"

text \<open>
  \<^verbatim>\<open>std::sort\<close> with a comparison function, as insertion from the right. The standard
  fixes the result only up to the order of elements that compare equal; the statements
  about sorted lists below say what they assume of the comparison.
\<close>

primrec insert_by :: "('a \<Rightarrow> 'a \<Rightarrow> bool) \<Rightarrow> 'a \<Rightarrow> 'a list \<Rightarrow> 'a list" where
  "insert_by lt x [] = [x]"
| "insert_by lt x (y # ys) = (if lt y x then y # insert_by lt x ys else x # y # ys)"

definition std_sort :: "('a \<Rightarrow> 'a \<Rightarrow> bool) \<Rightarrow> 'a list \<Rightarrow> 'a list" where
  "std_sort lt xs = foldr (insert_by lt) xs []"

subsection \<open>Geometry and the clamp\<close>

definition getItemsTotalHeight :: "'a view \<Rightarrow> int" where
  "getItemsTotalHeight s = int32 (int (length (renderItems s)) * rowHeight s)"

definition getScrollAreaHeight :: "'a view \<Rightarrow> int" where
  "getScrollAreaHeight s = rectHeight s - titleHeight s"

definition getTopRenderOffset :: "'a view \<Rightarrow> int" where
  "getTopRenderOffset s = 0"

definition getBottomRenderOffset :: "'a view \<Rightarrow> int" where
  "getBottomRenderOffset s =
     (let itemsHeight = getItemsTotalHeight s in
      if itemsHeight > rectHeight s - titleHeight s
      then getItemsTotalHeight s - rectHeight s + titleHeight s
      else 0)"

text \<open>
  \<^verbatim>\<open>adjustRenderOffset\<close>: \<^verbatim>\<open>std::min(offset, bottom)\<close> refers to the parameter unless the
  bottom is less, \<^verbatim>\<open>std::max(0, m)\<close> refers to \<^verbatim>\<open>m\<close> when that is positive and to the
  temporary 0 otherwise. So the value returned is the offset itself, read from the
  parameter, when it is positive and at most the bottom; in every other case it is read
  from a temporary that has died, the bottom offset or 0.
\<close>

definition adjustRenderOffset :: "int \<Rightarrow> 'a view \<Rightarrow> int" where
  "adjustRenderOffset offset s =
     (if 0 < offset \<and> offset \<le> getBottomRenderOffset s then offset
      else deadRead s (max 0 (min offset (getBottomRenderOffset s))))"

text \<open>
  \<^verbatim>\<open>getScrollbarHeight\<close>: the division by the total height is a division of doubles, by
  zero when there is no item. \<^verbatim>\<open>std::max\<close> refers to the field \<^verbatim>\<open>scrollbarMinHeight\<close> when
  the height computed is less, and to the temporary holding that height otherwise.
\<close>

definition getScrollbarHeight :: "'a view \<Rightarrow> fault + int" where
  "getScrollbarHeight s =
     (if getItemsTotalHeight s = 0 then Inl FloatToIntUndefined
      else (case double_to_int
                   (double_round (double_round (real_of_int (getScrollAreaHeight s)
                                                  / real_of_int (getItemsTotalHeight s))
                                    * real_of_int (rectHeight s))) of
              Inl e \<Rightarrow> Inl e
            | Inr h \<Rightarrow> Inr (if h < scrollbarMinHeight s then scrollbarMinHeight s
                            else deadRead s h)))"

text \<open>
  \<^verbatim>\<open>getScrollbarY\<close>: \<^verbatim>\<open>qMin(y, b)\<close> refers to the local \<^verbatim>\<open>y\<close> when it is the smaller and
  to the temporary \<^verbatim>\<open>b\<close> otherwise.
\<close>

definition getScrollbarY :: "'a view \<Rightarrow> fault + int" where
  "getScrollbarY s =
     (if getItemsTotalHeight s = 0 then Inl FloatToIntUndefined
      else (case double_to_int
                   (double_round (double_round (double_round (real_of_int (renderOffset s)
                                                  / real_of_int (getItemsTotalHeight s))
                                    * real_of_int (getScrollAreaHeight s))
                      + real_of_int (titleHeight s))) of
              Inl e \<Rightarrow> Inl e
            | Inr y \<Rightarrow>
                (case getScrollbarHeight s of
                   Inl e \<Rightarrow> Inl e
                 | Inr barHeight \<Rightarrow>
                     Inr (if y < rectHeight s - barHeight then y
                          else deadRead s (rectHeight s - barHeight)))))"

definition isMouseAtScrollArea :: "int \<Rightarrow> 'a view \<Rightarrow> bool" where
  "isMouseAtScrollArea x s = (x > rectWidth s - scrollbarDragWidth s \<and> x < rectWidth s)"


text \<open>The invariant of the scroll state, as the specification writes it.\<close>

definition scroll_inv :: "'a view \<Rightarrow> bool" where
  "scroll_inv s =
     (0 \<le> renderOffset s \<and>
      renderOffset s \<le> max 0 (int (length (renderItems s)) * rowHeight s
                                  - (rectHeight s - titleHeight s)))"


section \<open>DSimpleListView: operations\<close>

subsection \<open>Searching and sorting\<close>

definition getSearchItems :: "'a list \<Rightarrow> 'a view \<Rightarrow> 'a list" where
  "getSearchItems items s =
     (case searchAlgorithm s of
        None \<Rightarrow> items
      | Some alg \<Rightarrow>
          if searchContent s = [] then items
          else filter (\<lambda>item. alg item (searchContent s)) items)"

text \<open>
  \<^verbatim>\<open>sortItemsByColumn\<close>: the guard reads the list of algorithms through its pointer. The
  comparison indexes that list when \<^verbatim>\<open>std::sort\<close> calls it, which happens once the list
  to sort has two items.
\<close>

definition sortItemsByColumn :: "int \<Rightarrow> bool \<Rightarrow> 'a view \<Rightarrow> fault + 'a view" where
  "sortItemsByColumn column descendingSort s =
     (case sortingAlgorithms s of
        None \<Rightarrow> Inl NullPointer
      | Some algs \<Rightarrow>
          if length algs \<noteq> 0 \<and> length algs = length (columnTitles s)
               \<and> length (sortingOrderes s) = length (columnTitles s)
          then (if length (renderItems s) < 2 then Inr s
                else if 0 \<le> column \<and> column < int (length algs)
                then Inr (s\<lparr>renderItems :=
                        std_sort (\<lambda>item1 item2. (algs ! nat column) item1 item2 descendingSort)
                          (renderItems s)\<rparr>)
                else Inl IndexOutOfRange)
          else Inr s)"

definition setColumnSortingAlgorithms ::
  "('a \<Rightarrow> 'a \<Rightarrow> bool \<Rightarrow> bool) list option \<Rightarrow> int \<Rightarrow> bool \<Rightarrow> 'a view \<Rightarrow> 'a view" where
  "setColumnSortingAlgorithms algorithms sortColumn descendingSort s =
     (let s1 = s\<lparr>sortingAlgorithms := algorithms\<rparr>;
          s2 = (case algorithms of
                  None \<Rightarrow> s1
                | Some algs \<Rightarrow>
                    s1\<lparr>sortingOrderes := sortingOrderes s1 @ replicate (length algs) False\<rparr>)
      in s2\<lparr>defaultSortingColumn := sortColumn, defaultSortingOrder := descendingSort\<rparr>)"

definition setSearchAlgorithm :: "('a \<Rightarrow> string \<Rightarrow> bool) option \<Rightarrow> 'a view \<Rightarrow> 'a view" where
  "setSearchAlgorithm algorithm s = s\<lparr>searchAlgorithm := algorithm\<rparr>"

definition search :: "string \<Rightarrow> 'a view \<Rightarrow> 'a view" where
  "search content s =
     (if content = [] \<and> searchContent s \<noteq> content
      then (let s1 = s\<lparr>searchContent := content\<rparr>
            in s1\<lparr>renderItems := [] @ listItems s1\<rparr>)
      else (let s1 = s\<lparr>searchContent := content\<rparr>;
                searchItems = getSearchItems (listItems s1) s1
            in s1\<lparr>renderItems := [] @ searchItems\<rparr>))"

subsection \<open>Adding, removing and replacing items\<close>

definition addItems :: "'a list \<Rightarrow> 'a view \<Rightarrow> fault + 'a view" where
  "addItems items s =
     (let s1 = s\<lparr>listItems := listItems s @ items\<rparr>;
          searchItems = getSearchItems items s1;
          s2 = s1\<lparr>renderItems := renderItems s1 @ searchItems\<rparr>
      in if defaultSortingColumn s2 \<noteq> -1
         then sortItemsByColumn (defaultSortingColumn s2) (defaultSortingOrder s2) s2
         else Inr s2)"

text \<open>
  \<^verbatim>\<open>removeItem\<close>: \<open>None\<close> is the null pointer. \<^verbatim>\<open>QList::removeOne\<close> removes the first
  occurrence, which is \<open>remove1\<close>. The test reads \<^verbatim>\<open>rect().height()\<close>, not the height of
  the scroll area.
\<close>

definition removeItem :: "'a option \<Rightarrow> 'a view \<Rightarrow> 'a view" where
  "removeItem item s =
     (case item of
        None \<Rightarrow> s
      | Some x \<Rightarrow>
          (let s1 = s\<lparr>listItems := remove1 x (listItems s)\<rparr>;
               s2 = s1\<lparr>renderItems := remove1 x (renderItems s1)\<rparr>
           in if renderOffset s2 \<ge> getItemsTotalHeight s2 - rectHeight s2
              then s2\<lparr>renderOffset := adjustRenderOffset (renderOffset s2 - rowHeight s2) s2\<rparr>
              else s2))"

text \<open>
  \<^verbatim>\<open>clearItems\<close> deletes the items of \<^verbatim>\<open>listItems\<close> and empties both lists. A
  \<^verbatim>\<open>QPointer\<close> to a deleted item reads as null from then on; \<^verbatim>\<open>selectionItems\<close> holds
  plain pointers and is not touched.
\<close>

definition clearItems :: "'a view \<Rightarrow> 'a view" where
  "clearItems s =
     s\<lparr>lastSelectItem :=
          (case lastSelectItem s of
             None \<Rightarrow> None
           | Some x \<Rightarrow> if x \<in> set (listItems s) then None else Some x),
       listItems := [], renderItems := []\<rparr>"

text \<open>
  Modelled from the spec: the default values of the arguments \<^verbatim>\<open>recordLastSelection\<close> of
  \<^verbatim>\<open>addSelections\<close> and \<^verbatim>\<open>clearLastSelection\<close> of \<^verbatim>\<open>clearSelections\<close>, which the header
  of the class declares; the header is not among the sources. Both are \<^verbatim>\<open>true\<close>: the
  range selection of the specification starts from the item a plain selection has
  recorded, and the two calls that pass \<^verbatim>\<open>false\<close> say in their comments that they do so
  to keep the last selected item. A call that leaves the argument out is written below
  with the default.
\<close>

abbreviation (input) recordLastSelection_default :: bool where
  "recordLastSelection_default \<equiv> True"

abbreviation (input) clearLastSelection_default :: bool where
  "clearLastSelection_default \<equiv> True"

definition addSelections :: "'a list \<Rightarrow> bool \<Rightarrow> 'a view \<Rightarrow> 'a view" where
  "addSelections items recordLastSelection s =
     (let s1 = s\<lparr>selectionItems := selectionItems s @ items\<rparr>
      in if recordLastSelection \<and> length (selectionItems s1) > 0
         then s1\<lparr>lastSelectItem := Some (last (selectionItems s1))\<rparr>
         else s1)"

definition clearSelections :: "bool \<Rightarrow> 'a view \<Rightarrow> 'a view" where
  "clearSelections clearLastSelection s =
     (let s1 = s\<lparr>selectionItems := []\<rparr>
      in if clearLastSelection then s1\<lparr>lastSelectItem := None\<rparr> else s1)"

text \<open>
  \<^verbatim>\<open>refreshItems\<close>; \<open>sameAs\<close> is the virtual method of the items. The part that matches
  \<^verbatim>\<open>lastHoverItem\<close> again is outside the model.
\<close>

definition refreshItems :: "('a \<Rightarrow> 'a \<Rightarrow> bool) \<Rightarrow> 'a list \<Rightarrow> 'a view \<Rightarrow> fault + 'a view" where
  "refreshItems sameAs items s =
     (let newSelectionItems =
            filter (\<lambda>item. list_ex (\<lambda>selectionItem. sameAs item selectionItem) (selectionItems s)) items;
          newLastSelectionItem =
            (case lastSelectItem s of
               None \<Rightarrow> None
             | Some l \<Rightarrow> find (\<lambda>item. sameAs item l) items);
          s1 = clearItems s;
          s2 = s1\<lparr>listItems := listItems s1 @ items\<rparr>;
          searchItems = getSearchItems items s2;
          s3 = s2\<lparr>renderItems := renderItems s2 @ searchItems\<rparr>
      in case (if defaultSortingColumn s3 \<noteq> -1
               then sortItemsByColumn (defaultSortingColumn s3) (defaultSortingOrder s3) s3
               else Inr s3) of
           Inl e \<Rightarrow> Inl e
         | Inr s4 \<Rightarrow>
             (let s5 = clearSelections clearLastSelection_default s4;
                  s6 = addSelections newSelectionItems False s5;
                  s7 = s6\<lparr>lastSelectItem := newLastSelectionItem\<rparr>
              in Inr (s7\<lparr>renderOffset := adjustRenderOffset (renderOffset s7) s7\<rparr>)))"


subsection \<open>Selection by keyboard\<close>

definition selectAllItems :: "'a view \<Rightarrow> 'a view" where
  "selectAllItems s =
     (if \<not> isSingleSelect s
      then (let s1 = s\<lparr>oldRenderOffset := renderOffset s\<rparr>;
                s2 = clearSelections clearLastSelection_default s1;
                s3 = addSelections (renderItems s2) recordLastSelection_default s2
            in s3\<lparr>renderOffset := getTopRenderOffset s3\<rparr>)
      else s)"

definition selectFirstItem :: "'a view \<Rightarrow> 'a view" where
  "selectFirstItem s =
     (if renderItems s = [] then s
      else (let s1 = s\<lparr>oldRenderOffset := renderOffset s\<rparr>;
                s2 = clearSelections clearLastSelection_default s1;
                s3 = addSelections [hd (renderItems s2)] recordLastSelection_default s2
            in s3\<lparr>renderOffset := getTopRenderOffset s3\<rparr>))"

definition selectLastItem :: "'a view \<Rightarrow> 'a view" where
  "selectLastItem s =
     (if renderItems s = [] then s
      else (let s1 = s\<lparr>oldRenderOffset := renderOffset s\<rparr>;
                s2 = clearSelections clearLastSelection_default s1;
                s3 = addSelections [last (renderItems s2)] recordLastSelection_default s2
            in s3\<lparr>renderOffset := getBottomRenderOffset s3\<rparr>))"

text \<open>
  The two loops over \<^verbatim>\<open>selectionItems\<close> that find the greatest and the least index in
  \<^verbatim>\<open>renderItems\<close>; they start from 0 and from the number of render items.
\<close>

definition lastIndexOfSelection :: "'a view \<Rightarrow> int" where
  "lastIndexOfSelection s =
     fold (\<lambda>item lastIndex.
             (let index = indexOf (renderItems s) item
              in if index > lastIndex then index else lastIndex))
          (selectionItems s) 0"

definition firstIndexOfSelection :: "'a view \<Rightarrow> int" where
  "firstIndexOfSelection s =
     fold (\<lambda>item firstIndex.
             (let index = indexOf (renderItems s) item
              in if index < firstIndex then index else firstIndex))
          (selectionItems s) (int (length (renderItems s)))"

definition selectNextItemWithOffset :: "int \<Rightarrow> 'a view \<Rightarrow> fault + 'a view" where
  "selectNextItemWithOffset scrollOffset s =
     (let s1 = s\<lparr>oldRenderOffset := renderOffset s\<rparr>
      in if selectionItems s1 = [] then Inr (selectFirstItem s1)
         else (let lastIndex = lastIndexOfSelection s1
               in if lastIndex \<noteq> -1
                  then (let newIndex = min (int (length (renderItems s1)) - 1) (lastIndex + scrollOffset);
                            s2 = clearSelections False s1
                        in case itemAt (renderItems s2) newIndex of
                             Inl e \<Rightarrow> Inl e
                           | Inr item \<Rightarrow>
                               (let s3 = addSelections [item] recordLastSelection_default s2;
                                    itemIndex = newIndex + 1;
                                    itemOffset = adjustRenderOffset
                                      (int32 (itemIndex * rowHeight s3) - rectHeight s3 + titleHeight s3) s3
                                in if rowHeight s3 = 0 then Inl DivideByZero
                                   else if (renderOffset s3 + getScrollAreaHeight s3) sdiv rowHeight s3 < itemIndex
                                   then Inr (s3\<lparr>renderOffset := itemOffset\<rparr>)
                                   else Inr s3))
                  else Inr s1))"

definition selectPrevItemWithOffset :: "int \<Rightarrow> 'a view \<Rightarrow> fault + 'a view" where
  "selectPrevItemWithOffset scrollOffset s =
     (let s1 = s\<lparr>oldRenderOffset := renderOffset s\<rparr>
      in if selectionItems s1 = [] then Inr (selectFirstItem s1)
         else (let firstIndex = firstIndexOfSelection s1
               in if firstIndex \<noteq> -1
                  then (let newIndex = max 0 (firstIndex - scrollOffset);
                            s2 = clearSelections clearLastSelection_default s1
                        in case itemAt (renderItems s2) newIndex of
                             Inl e \<Rightarrow> Inl e
                           | Inr item \<Rightarrow>
                               (let s3 = addSelections [item] recordLastSelection_default s2;
                                    itemIndex = newIndex - 1;
                                    itemOffset = adjustRenderOffset
                                      (int32 (itemIndex * rowHeight s3) + titleHeight s3) s3
                                in if rowHeight s3 = 0 then Inl DivideByZero
                                   else if renderOffset s3 sdiv rowHeight s3 > itemIndex
                                   then Inr (s3\<lparr>renderOffset := itemOffset\<rparr>)
                                   else Inr s3))
                  else Inr s1))"

definition selectNextItem :: "'a view \<Rightarrow> fault + 'a view" where
  "selectNextItem s = selectNextItemWithOffset 1 s"

definition selectPrevItem :: "'a view \<Rightarrow> fault + 'a view" where
  "selectPrevItem s = selectPrevItemWithOffset 1 s"

definition scrollPageDown :: "'a view \<Rightarrow> fault + 'a view" where
  "scrollPageDown s =
     (if rowHeight s = 0 then Inl DivideByZero
      else selectNextItemWithOffset (getScrollAreaHeight s sdiv rowHeight s) s)"

definition scrollPageUp :: "'a view \<Rightarrow> fault + 'a view" where
  "scrollPageUp s =
     (if rowHeight s = 0 then Inl DivideByZero
      else selectPrevItemWithOffset (getScrollAreaHeight s sdiv rowHeight s) s)"

text \<open>The loop of \<^verbatim>\<open>shiftSelectItemsWithBound\<close> over the render items, with its counter.\<close>

primrec itemsWithBound :: "int \<Rightarrow> int \<Rightarrow> int \<Rightarrow> 'a list \<Rightarrow> 'a list" where
  "itemsWithBound selectionStartIndex selectionEndIndex index [] = []"
| "itemsWithBound selectionStartIndex selectionEndIndex index (item # rest) =
     (if index \<ge> selectionStartIndex \<and> index \<le> selectionEndIndex
      then item # itemsWithBound selectionStartIndex selectionEndIndex (index + 1) rest
      else itemsWithBound selectionStartIndex selectionEndIndex (index + 1) rest)"

definition shiftSelectItemsWithBound :: "int \<Rightarrow> int \<Rightarrow> 'a view \<Rightarrow> 'a view" where
  "shiftSelectItemsWithBound selectionStartIndex selectionEndIndex s =
     (let s1 = clearSelections False s;
          items = itemsWithBound selectionStartIndex selectionEndIndex 0 (renderItems s1)
      in addSelections items False s1)"

definition shiftSelectPrevItemWithOffset :: "int \<Rightarrow> 'a view \<Rightarrow> fault + 'a view" where
  "shiftSelectPrevItemWithOffset scrollOffset s =
     (let s1 = s\<lparr>oldRenderOffset := renderOffset s\<rparr>
      in if selectionItems s1 = [] then Inr (selectFirstItem s1)
         else (let firstIndex = firstIndexOfSelection s1;
                   lastIndex = lastIndexOfSelection s1
               in if firstIndex \<noteq> -1
                  then (let lastSelectionIndex = indexOfPointer (renderItems s1) (lastSelectItem s1);
                            selectionStartIndex =
                              (if lastIndex = lastSelectionIndex then max 0 (firstIndex - scrollOffset)
                               else firstIndex);
                            selectionEndIndex =
                              (if lastIndex = lastSelectionIndex then lastSelectionIndex
                               else max 0 (lastIndex - scrollOffset));
                            s2 = shiftSelectItemsWithBound selectionStartIndex selectionEndIndex s1
                        in if rowHeight s2 = 0 then Inl DivideByZero
                           else if renderOffset s2 sdiv rowHeight s2 \<ge> selectionStartIndex
                           then Inr (s2\<lparr>renderOffset := adjustRenderOffset
                                     (int32 ((selectionStartIndex - 1) * rowHeight s2) + titleHeight s2) s2\<rparr>)
                           else Inr s2)
                  else Inr s1))"

definition shiftSelectNextItemWithOffset :: "int \<Rightarrow> 'a view \<Rightarrow> fault + 'a view" where
  "shiftSelectNextItemWithOffset scrollOffset s =
     (let s1 = s\<lparr>oldRenderOffset := renderOffset s\<rparr>
      in if selectionItems s1 = [] then Inr (selectFirstItem s1)
         else (let firstIndex = firstIndexOfSelection s1;
                   lastIndex = lastIndexOfSelection s1
               in if firstIndex \<noteq> -1
                  then (let lastSelectionIndex = indexOfPointer (renderItems s1) (lastSelectItem s1);
                            selectionStartIndex =
                              (if firstIndex = lastSelectionIndex then firstIndex
                               else min (int (length (renderItems s1)) - 1) (firstIndex + scrollOffset));
                            selectionEndIndex =
                              (if firstIndex = lastSelectionIndex
                               then min (int (length (renderItems s1)) - 1) (lastIndex + scrollOffset)
                               else lastIndex);
                            s2 = shiftSelectItemsWithBound selectionStartIndex selectionEndIndex s1
                        in if rowHeight s2 = 0 then Inl DivideByZero
                           else if (renderOffset s2 + rectHeight s2) sdiv rowHeight s2 \<le> selectionEndIndex + 1
                           then Inr (s2\<lparr>renderOffset := adjustRenderOffset
                                     (int32 ((selectionEndIndex + 1) * rowHeight s2) + titleHeight s2 - rectHeight s2) s2\<rparr>)
                           else Inr s2)
                  else Inr s1))"

definition shiftSelectPageDown :: "'a view \<Rightarrow> fault + 'a view" where
  "shiftSelectPageDown s =
     (if \<not> isSingleSelect s
      then (if rowHeight s = 0 then Inl DivideByZero
            else shiftSelectNextItemWithOffset (getScrollAreaHeight s sdiv rowHeight s) s)
      else Inr s)"

definition shiftSelectPageUp :: "'a view \<Rightarrow> fault + 'a view" where
  "shiftSelectPageUp s =
     (if \<not> isSingleSelect s
      then (if rowHeight s = 0 then Inl DivideByZero
            else shiftSelectPrevItemWithOffset (getScrollAreaHeight s sdiv rowHeight s) s)
      else Inr s)"

definition shiftSelectToNext :: "'a view \<Rightarrow> fault + 'a view" where
  "shiftSelectToNext s = (if \<not> isSingleSelect s then shiftSelectNextItemWithOffset 1 s else Inr s)"

definition shiftSelectToPrev :: "'a view \<Rightarrow> fault + 'a view" where
  "shiftSelectToPrev s = (if \<not> isSingleSelect s then shiftSelectPrevItemWithOffset 1 s else Inr s)"

definition shiftSelectToEnd :: "'a view \<Rightarrow> 'a view" where
  "shiftSelectToEnd s =
     (if \<not> isSingleSelect s
      then (if selectionItems s = [] then selectLastItem s
            else (let lastSelectionIndex = indexOfPointer (renderItems s) (lastSelectItem s);
                      s1 = shiftSelectItemsWithBound lastSelectionIndex (int (length (renderItems s)) - 1) s
                  in s1\<lparr>renderOffset := getBottomRenderOffset s1\<rparr>))
      else s)"

definition shiftSelectToHome :: "'a view \<Rightarrow> 'a view" where
  "shiftSelectToHome s =
     (if \<not> isSingleSelect s
      then (if selectionItems s = [] then selectFirstItem s
            else (let lastSelectionIndex = indexOfPointer (renderItems s) (lastSelectItem s);
                      s1 = shiftSelectItemsWithBound 0 lastSelectionIndex s
                  in s1\<lparr>renderOffset := getTopRenderOffset s1\<rparr>))
      else s)"


subsection \<open>Scrolling\<close>

definition ctrlScrollPageUp :: "'a view \<Rightarrow> 'a view" where
  "ctrlScrollPageUp s = s\<lparr>renderOffset := adjustRenderOffset (renderOffset s - getScrollAreaHeight s) s\<rparr>"

definition ctrlScrollPageDown :: "'a view \<Rightarrow> 'a view" where
  "ctrlScrollPageDown s = s\<lparr>renderOffset := adjustRenderOffset (renderOffset s + getScrollAreaHeight s) s\<rparr>"

definition ctrlScrollToHome :: "'a view \<Rightarrow> 'a view" where
  "ctrlScrollToHome s = s\<lparr>renderOffset := getTopRenderOffset s\<rparr>"

definition ctrlScrollToEnd :: "'a view \<Rightarrow> 'a view" where
  "ctrlScrollToEnd s = s\<lparr>renderOffset := getBottomRenderOffset s\<rparr>"

text \<open>\<^verbatim>\<open>wheelEvent\<close> with the vertical angle delta of the event.\<close>

definition wheelEvent :: "int \<Rightarrow> 'a view \<Rightarrow> fault + 'a view" where
  "wheelEvent deltaY s =
     (if deltaY \<noteq> 0
      then (let s1 = s\<lparr>oldRenderOffset := renderOffset s\<rparr>;
                scrollStep = double_round (real_of_int deltaY / 120)
            in case double_to_int
                      (double_round (real_of_int (renderOffset s1)
                                       - double_round (scrollStep * real_of_int (scrollUnit s1)))) of
                 Inl e \<Rightarrow> Inl e
               | Inr offset \<Rightarrow> Inr (s1\<lparr>renderOffset := adjustRenderOffset offset s1\<rparr>))
      else Inr s)"

text \<open>
  The mapping of a pointer position on the scrollbar to an offset, shared by the drag
  and by the click beside the thumb: the position less half the thumb and the title,
  over the height of the scroll area, times the total height of the items.
\<close>

definition scrollbarOffset :: "int \<Rightarrow> int \<Rightarrow> 'a view \<Rightarrow> fault + int" where
  "scrollbarOffset my barHeight s =
     (if getScrollAreaHeight s = 0 then Inl FloatToIntUndefined
      else double_to_int
             (double_round (double_round (real_of_int (my - barHeight sdiv 2 - titleHeight s)
                                            / real_of_int (getScrollAreaHeight s))
                              * real_of_int (getItemsTotalHeight s))))"

text \<open>
  \<^verbatim>\<open>mouseMoveEvent\<close>: the first branch, taken while the scrollbar is dragged. The other
  branches update the hover fields only.
\<close>

definition mouseMoveEvent :: "int \<Rightarrow> 'a view \<Rightarrow> fault + 'a view" where
  "mouseMoveEvent my s =
     (if mouseDragScrollbar s
      then (case getScrollbarHeight s of
              Inl e \<Rightarrow> Inl e
            | Inr barHeight \<Rightarrow>
                (case scrollbarOffset my barHeight s of
                   Inl e \<Rightarrow> Inl e
                 | Inr offset \<Rightarrow> Inr (s\<lparr>renderOffset := adjustRenderOffset offset s\<rparr>)))
      else Inr s)"

text \<open>
  \<^verbatim>\<open>mousePressEvent\<close>, the branch of a press in the scrollbar area (outside the title
  area): on the thumb it starts a drag, beside it the view jumps.
\<close>

definition pressScrollArea :: "int \<Rightarrow> 'a view \<Rightarrow> fault + 'a view" where
  "pressScrollArea my s =
     (case getScrollbarHeight s of
        Inl e \<Rightarrow> Inl e
      | Inr barHeight \<Rightarrow>
          (case getScrollbarY s of
             Inl e \<Rightarrow> Inl e
           | Inr barY \<Rightarrow>
               if my > barY \<and> my < barY + barHeight
               then Inr (s\<lparr>mouseDragScrollbar := True\<rparr>)
               else (case scrollbarOffset my barHeight s of
                       Inl e \<Rightarrow> Inl e
                     | Inr offset \<Rightarrow> Inr (s\<lparr>renderOffset := adjustRenderOffset offset s\<rparr>))))"

text \<open>\<^verbatim>\<open>mouseReleaseEvent\<close>; the signal it emits afterwards changes no field.\<close>

definition mouseReleaseEvent :: "'a view \<Rightarrow> 'a view" where
  "mouseReleaseEvent s =
     (if mouseDragScrollbar s then s\<lparr>mouseDragScrollbar := False\<rparr>
      else if titlePressColumn s \<noteq> -1 then s\<lparr>titlePressColumn := -1\<rparr>
      else s)"

subsection \<open>Column widths and the press on a title\<close>





text \<open>
  The row under the pointer, as \<^verbatim>\<open>mousePressEvent\<close>, \<^verbatim>\<open>mouseMoveEvent\<close> and
  \<^verbatim>\<open>mouseReleaseEvent\<close> compute it from the y coordinate.
\<close>

definition pressItemIndex :: "int \<Rightarrow> 'a view \<Rightarrow> fault + int" where
  "pressItemIndex my s =
     (if rowHeight s = 0 then Inl DivideByZero
      else Inr ((renderOffset s + my - titleHeight s) sdiv rowHeight s))"

subsection \<open>Painting\<close>

text \<open>
  The loop of \<^verbatim>\<open>paintEvent\<close> over the render items; the result is the list of the values
  of \<^verbatim>\<open>rowCounter\<close> for which the item is drawn. \<^verbatim>\<open>renderHeight\<close> starts at the title
  height when that is positive, grows by a row for every item drawn, and the loop
  leaves once it exceeds \<^verbatim>\<open>rect().height()\<close>.
\<close>

fun paintLoop :: "'a view \<Rightarrow> 'a list \<Rightarrow> int \<Rightarrow> int \<Rightarrow> fault + int list" where
  "paintLoop s [] rowCounter renderHeight = Inr []"
| "paintLoop s (item # rest) rowCounter renderHeight =
     (if rowHeight s = 0 then Inl DivideByZero
      else if rowCounter \<ge> renderOffset s sdiv rowHeight s
      then (if renderHeight + rowHeight s > rectHeight s then Inr [rowCounter]
            else (case paintLoop s rest (rowCounter + 1) (renderHeight + rowHeight s) of
                    Inl e \<Rightarrow> Inl e
                  | Inr rows \<Rightarrow> Inr (rowCounter # rows)))
      else paintLoop s rest (rowCounter + 1) renderHeight)"

definition paintedRows :: "'a view \<Rightarrow> fault + int list" where
  "paintedRows s = paintLoop s (renderItems s) 0 (if titleHeight s > 0 then titleHeight s else 0)"

text \<open>
  The rows the specification expects: the indices from \<open>\<lfloor>renderOffset / rowHeight\<rfloor>\<close> to
  \<open>\<lfloor>(renderOffset + viewportHeight) / rowHeight\<rfloor>\<close> that are valid for the render items.
\<close>

definition specRows :: "'a view \<Rightarrow> int list" where
  "specRows s =
     filter (\<lambda>i. renderOffset s div rowHeight s \<le> i
                  \<and> i \<le> (renderOffset s + getScrollAreaHeight s) div rowHeight s)
            (map int [0 ..< length (renderItems s)])"


subsection \<open>Sequences of operations that scroll\<close>

text \<open>
  The operations that write \<^verbatim>\<open>renderOffset\<close>: the wheel, the four scrolls with the
  control key, the scrollbar (press, drag, release), the removal of an item, the refresh,
  and the selections by keyboard, which scroll to keep the selection in view.
\<close>

datatype 'a scroll_op =
    Wheel int
  | CtrlScrollPageUp | CtrlScrollPageDown | CtrlScrollToHome | CtrlScrollToEnd
  | PressScrollArea int | MouseMove int | MouseRelease
  | RemoveItem "'a option"
  | RefreshItems "'a list"
  | SelectAllItems | SelectFirstItem | SelectLastItem
  | SelectNextItem | SelectPrevItem | ScrollPageDown | ScrollPageUp
  | ShiftSelectToNext | ShiftSelectToPrev | ShiftSelectPageDown | ShiftSelectPageUp
  | ShiftSelectToEnd | ShiftSelectToHome

fun perform :: "('a \<Rightarrow> 'a \<Rightarrow> bool) \<Rightarrow> 'a scroll_op \<Rightarrow> 'a view \<Rightarrow> fault + 'a view" where
  "perform sameAs (Wheel deltaY) s = wheelEvent deltaY s"
| "perform sameAs CtrlScrollPageUp s = Inr (ctrlScrollPageUp s)"
| "perform sameAs CtrlScrollPageDown s = Inr (ctrlScrollPageDown s)"
| "perform sameAs CtrlScrollToHome s = Inr (ctrlScrollToHome s)"
| "perform sameAs CtrlScrollToEnd s = Inr (ctrlScrollToEnd s)"
| "perform sameAs (PressScrollArea my) s = pressScrollArea my s"
| "perform sameAs (MouseMove my) s = mouseMoveEvent my s"
| "perform sameAs MouseRelease s = Inr (mouseReleaseEvent s)"
| "perform sameAs (RemoveItem item) s = Inr (removeItem item s)"
| "perform sameAs (RefreshItems items) s = refreshItems sameAs items s"
| "perform sameAs SelectAllItems s = Inr (selectAllItems s)"
| "perform sameAs SelectFirstItem s = Inr (selectFirstItem s)"
| "perform sameAs SelectLastItem s = Inr (selectLastItem s)"
| "perform sameAs SelectNextItem s = selectNextItem s"
| "perform sameAs SelectPrevItem s = selectPrevItem s"
| "perform sameAs ScrollPageDown s = scrollPageDown s"
| "perform sameAs ScrollPageUp s = scrollPageUp s"
| "perform sameAs ShiftSelectToNext s = shiftSelectToNext s"
| "perform sameAs ShiftSelectToPrev s = shiftSelectToPrev s"
| "perform sameAs ShiftSelectPageDown s = shiftSelectPageDown s"
| "perform sameAs ShiftSelectPageUp s = shiftSelectPageUp s"
| "perform sameAs ShiftSelectToEnd s = Inr (shiftSelectToEnd s)"
| "perform sameAs ShiftSelectToHome s = Inr (shiftSelectToHome s)"

text \<open>
  The states a sequence of operations goes through, one after each operation, up to the
  first operation that ends in a fault.
\<close>

fun states_after :: "('a \<Rightarrow> 'a \<Rightarrow> bool) \<Rightarrow> 'a scroll_op list \<Rightarrow> 'a view \<Rightarrow> 'a view list" where
  "states_after sameAs [] s = []"
| "states_after sameAs (x # xs) s =
     (case perform sameAs x s of
        Inl e \<Rightarrow> []
      | Inr s' \<Rightarrow> s' # states_after sameAs xs s')"


section \<open>Comparisons and example states\<close>


text \<open>A sort algorithm and a search algorithm for items that are numbers.\<close>

definition by_value :: "int \<Rightarrow> int \<Rightarrow> bool \<Rightarrow> bool" where
  "by_value item1 item2 descendingSort = (if descendingSort then item1 > item2 else item1 < item2)"

definition even_items :: "int \<Rightarrow> string \<Rightarrow> bool" where
  "even_items item content = (item mod 2 = 0)"

text \<open>
  A list of one column, 200 by 100 pixels, with a title row of 20 pixels and rows of
  20 pixels, sorted by the column in descending order; then the items 1, 2, 3 are added.
\<close>

definition one_column :: "int view" where
  "one_column =
     setColumnSortingAlgorithms (Some [by_value]) 0 True
       ((initial_view 200 100)\<lparr>columnTitles := [''value''], columnWidths := [100],
          columnVisibles := [True], titleHeight := 20, rowHeight := 20, scrollUnit := 20\<rparr>)"

definition one_column_items :: "int view" where
  "one_column_items = (case addItems [1, 2, 3] one_column of Inl e \<Rightarrow> one_column | Inr s \<Rightarrow> s)"



text \<open>
  The example of the specification for the jump of the scrollbar: no title, a viewport
  of 100 pixels, rows of 20 pixels, 50 items.
\<close>

definition fifty_rows :: "int view" where
  "fifty_rows =
     (initial_view 200 100)\<lparr>listItems := map int [0 ..< 50], renderItems := map int [0 ..< 50],
        rowHeight := 20, scrollUnit := 20\<rparr>"

text \<open>
  Ten rows of the default height 36 in a widget 100 pixels high with no title, scrolled
  by 10 pixels (an offset a click on the scrollbar gives).
\<close>

definition ten_rows :: "int view" where
  "ten_rows =
     (initial_view 200 100)\<lparr>listItems := map int [0 ..< 10], renderItems := map int [0 ..< 10],
        scrollUnit := 36, renderOffset := 10\<rparr>"

text \<open>
  One item is added to a new list, selected and removed: the selection keeps it.
\<close>

definition stale_selection :: "int view" where
  "stale_selection =
     removeItem (Some 7) (selectFirstItem
       ((initial_view 200 100)\<lparr>listItems := [7], renderItems := [7]\<rparr>))"

text \<open>
  The ten rows in a build that has reused the memory of the dead temporaries: a read
  through a dead reference finds 32767.
\<close>

definition reused_stack :: "int view" where
  "reused_stack = ten_rows\<lparr>deadRead := (\<lambda>v. 32767)\<rparr>"

text \<open>
  Ten rows of 20 pixels in a widget 100 pixels high whose title height has been set
  to -50, scrolled to the bottom.
\<close>

definition negative_title :: "int view" where
  "negative_title =
     (initial_view 200 100)\<lparr>listItems := map int [0 ..< 10], renderItems := map int [0 ..< 10],
        rowHeight := 20, scrollUnit := 20, titleHeight := -50, renderOffset := 50\<rparr>"

subsection \<open>The invariant, step by step\<close>

text \<open>
  What the bound of the offset is computed from; the condition that the total height of
  the items is a number of 32 bits; and the relation between the state before an
  operation and the state after it that keeps the invariant in a build where the dead
  temporaries still hold their values: the same geometry, and an offset that is either
  the old one or within the bound.
\<close>

definition geometry :: "'a view \<Rightarrow> nat \<times> int \<times> int \<times> int" where
  "geometry s = (length (renderItems s), rowHeight s, rectHeight s, titleHeight s)"

definition fits_int32 :: "'a view \<Rightarrow> bool" where
  "fits_int32 s = (- 2147483648 \<le> int (length (renderItems s)) * rowHeight s
                   \<and> int (length (renderItems s)) * rowHeight s \<le> 2147483647)"

definition in_range :: "'a view \<Rightarrow> 'a view \<Rightarrow> bool" where
  "in_range s s' = (geometry s' = geometry s \<and> deadRead s' = (\<lambda>v. v)
     \<and> (renderOffset s' = renderOffset s
          \<or> (0 \<le> renderOffset s' \<and> renderOffset s' \<le> getBottomRenderOffset s)))"


section \<open>Facts about the helpers and the example states\<close>

lemma mset_insert_by: "mset (insert_by lt x xs) = add_mset x (mset xs)"
  by (induction xs) simp_all

lemma mset_std_sort: "mset (std_sort lt xs) = mset xs"
  by (induction xs) (simp_all add: std_sort_def mset_insert_by)

lemma length_std_sort: "length (std_sort lt xs) = length xs"
  using mset_std_sort [of lt xs] by (metis size_mset)


lemma sortItemsByColumn_renderItems:
  "sortItemsByColumn column descendingSort s = Inr s' \<Longrightarrow> mset (renderItems s') = mset (renderItems s)"
  by (auto simp: sortItemsByColumn_def mset_std_sort split: option.splits if_splits)

lemma sortItemsByColumn_rest:
  "sortItemsByColumn column descendingSort s = Inr s' \<Longrightarrow> s' = s\<lparr>renderItems := renderItems s'\<rparr>"
  by (auto simp: sortItemsByColumn_def split: option.splits if_splits)

lemma one_column_fields:
  "sortingAlgorithms one_column = Some [by_value]"
  "sortingOrderes one_column = [False]"
  "columnTitles one_column = [''value'']"
  "defaultSortingColumn one_column = 0"
  "defaultSortingOrder one_column = True"
  "searchAlgorithm one_column = None"
  "searchContent one_column = []"
  by (simp_all add: one_column_def setColumnSortingAlgorithms_def initial_view_def Let_def)

lemma one_column_items_eq:
  "one_column_items = one_column\<lparr>listItems := [1, 2, 3], renderItems := [3, 2, 1]\<rparr>"
  by (simp add: one_column_items_def addItems_def getSearchItems_def sortItemsByColumn_def
      one_column_def setColumnSortingAlgorithms_def initial_view_def Let_def std_sort_def by_value_def)

lemma one_column_items_fields:
  "renderItems one_column_items = [3, 2, 1]"
  "listItems one_column_items = [1, 2, 3]"
  "selectionItems one_column_items = []"
  "lastSelectItem one_column_items = None"
  by (simp_all add: one_column_items_eq one_column_def setColumnSortingAlgorithms_def
      initial_view_def Let_def)

lemma selected_first_eq:
  "selectFirstItem one_column_items
     = one_column_items\<lparr>selectionItems := [3], lastSelectItem := Some 3\<rparr>"
  by (simp add: selectFirstItem_def clearSelections_def addSelections_def getTopRenderOffset_def
      one_column_items_eq one_column_def setColumnSortingAlgorithms_def initial_view_def Let_def)

lemma fifty_rows_geometry:
  "getItemsTotalHeight fifty_rows = 1000"
  "getScrollAreaHeight fifty_rows = 100"
  "getBottomRenderOffset fifty_rows = 900"
  "getScrollbarHeight fifty_rows = Inr 30"
  "getScrollbarY fifty_rows = Inr 0"
  by code_simp+

lemma fifty_rows_offsets:
  "scrollbarOffset 65 30 fifty_rows = Inr 500"
  "scrollbarOffset 50 30 fifty_rows = Inr 350"
  "adjustRenderOffset 500 fifty_rows = 500"
  "adjustRenderOffset 350 fifty_rows = 350"
  "titleHeight fifty_rows = 0"
  by code_simp+

lemma fifty_rows_offset_differs:
  assumes "a \<noteq> b"
  shows "fifty_rows\<lparr>renderOffset := a\<rparr> \<noteq> fifty_rows\<lparr>renderOffset := b\<rparr>"
proof
  assume "fifty_rows\<lparr>renderOffset := a\<rparr> = fifty_rows\<lparr>renderOffset := b\<rparr>"
  then have "renderOffset (fifty_rows\<lparr>renderOffset := a\<rparr>) = renderOffset (fifty_rows\<lparr>renderOffset := b\<rparr>)"
    by (rule arg_cong)
  with assms show False by simp
qed

subsection \<open>Sorting with a strict total order\<close>














subsection \<open>The press on a title, computed\<close>







section \<open>The rows the paint loop draws\<close>

text \<open>
  What the loop of \<^verbatim>\<open>paintEvent\<close> draws, for a positive row height, an offset and a title
  height that are not negative, and a title that fits the widget: the rows from
  \<open>\<lfloor>renderOffset / rowHeight\<rfloor>\<close> on, \<open>\<lfloor>viewportHeight / rowHeight\<rfloor> + 1\<close> of them if the
  list has that many.
\<close>

lemma sdiv_nonneg: "0 \<le> a \<Longrightarrow> 0 < b \<Longrightarrow> a sdiv b = a div (b::int)"
  by (cases "a = 0") (simp_all add: signed_divide_int_def)

lemma paintLoop_painting:
  assumes "0 < rowHeight s" "renderOffset s sdiv rowHeight s \<le> rowCounter" "renderHeight \<le> rectHeight s"
  shows "paintLoop s xs rowCounter renderHeight
         = Inr [rowCounter .. min (rowCounter + int (length xs) - 1)
                                  (rowCounter + (rectHeight s - renderHeight) div rowHeight s)]"
  using assms
proof (induction xs arbitrary: rowCounter renderHeight)
  case Nil
  then show ?case by simp
next
  case (Cons x xs)
  show ?case
  proof (cases "renderHeight + rowHeight s > rectHeight s")
    case True
    with Cons.prems have "(rectHeight s - renderHeight) div rowHeight s = 0"
      by (simp add: div_pos_pos_trivial)
    with True Cons.prems show ?thesis by simp
  next
    case False
    then have le: "renderHeight + rowHeight s \<le> rectHeight s" by simp
    have d: "(rectHeight s - (renderHeight + rowHeight s)) div rowHeight s
        = (rectHeight s - renderHeight) div rowHeight s - 1"
      using Cons.prems(1) div_add_self2 [of "rowHeight s" "rectHeight s - (renderHeight + rowHeight s)"]
      by (simp add: algebra_simps)
    have "0 < (rectHeight s - renderHeight) div rowHeight s"
      using le Cons.prems(1) pos_imp_zdiv_pos_iff [of "rowHeight s" "rectHeight s - renderHeight"]
      by simp
    then have pos: "1 \<le> (rectHeight s - renderHeight) div rowHeight s" by simp
    have "paintLoop s xs (rowCounter + 1) (renderHeight + rowHeight s)
        = Inr [rowCounter + 1 .. min (rowCounter + 1 + int (length xs) - 1)
                 (rowCounter + 1 + (rectHeight s - (renderHeight + rowHeight s)) div rowHeight s)]"
      using Cons.prems le by (intro Cons.IH) simp_all
    then have "paintLoop s (x # xs) rowCounter renderHeight
        = Inr (rowCounter # [rowCounter + 1 .. min (rowCounter + int (length xs))
                 (rowCounter + (rectHeight s - renderHeight) div rowHeight s)])"
      using False Cons.prems d by simp
    also have "\<dots> = Inr [rowCounter .. min (rowCounter + int (length (x # xs)) - 1)
                 (rowCounter + (rectHeight s - renderHeight) div rowHeight s)]"
      using pos by (simp add: upto_rec1 [of rowCounter])
    finally show ?thesis .
  qed
qed

lemma paintLoop_skipping:
  assumes "0 < rowHeight s" "rowCounter \<le> renderOffset s sdiv rowHeight s"
  shows "paintLoop s xs rowCounter renderHeight
         = paintLoop s (drop (nat (renderOffset s sdiv rowHeight s - rowCounter)) xs)
             (renderOffset s sdiv rowHeight s) renderHeight"
  using assms
proof (induction xs arbitrary: rowCounter)
  case Nil
  then show ?case by simp
next
  case (Cons x xs)
  show ?case
  proof (cases "rowCounter = renderOffset s sdiv rowHeight s")
    case True
    then show ?thesis by simp
  next
    case False
    with Cons.prems have lt: "rowCounter < renderOffset s sdiv rowHeight s" by simp
    then have n: "nat (renderOffset s sdiv rowHeight s - rowCounter)
        = Suc (nat (renderOffset s sdiv rowHeight s - (rowCounter + 1)))"
      by simp
    from lt Cons.prems have "paintLoop s (x # xs) rowCounter renderHeight
        = paintLoop s xs (rowCounter + 1) renderHeight" by simp
    also have "\<dots> = paintLoop s (drop (nat (renderOffset s sdiv rowHeight s - (rowCounter + 1))) xs)
             (renderOffset s sdiv rowHeight s) renderHeight"
      using lt Cons.prems by (intro Cons.IH) simp_all
    finally show ?thesis unfolding n by simp
  qed
qed

lemma paintedRows_eq:
  assumes "0 < rowHeight s" "0 \<le> renderOffset s" "0 \<le> titleHeight s" "titleHeight s \<le> rectHeight s"
  shows "paintedRows s
         = Inr [renderOffset s div rowHeight s ..
                min (int (length (renderItems s)) - 1)
                    (renderOffset s div rowHeight s + getScrollAreaHeight s div rowHeight s)]"
proof -
  define a where "a = renderOffset s div rowHeight s"
  have sd: "renderOffset s sdiv rowHeight s = a"
    using assms by (simp add: a_def sdiv_nonneg)
  have a0: "0 \<le> a" using assms by (simp add: a_def pos_imp_zdiv_nonneg_iff)
  define h0 where "h0 = (if titleHeight s > 0 then titleHeight s else 0)"
  have h0: "h0 = titleHeight s" using assms(3) by (simp add: h0_def)
  have "paintedRows s = paintLoop s (drop (nat a) (renderItems s)) a h0"
    using paintLoop_skipping [of s 0 "renderItems s" h0] assms(1) a0 sd
    by (simp add: paintedRows_def h0_def)
  also have "\<dots> = Inr [a .. min (a + int (length (drop (nat a) (renderItems s))) - 1)
                            (a + (rectHeight s - h0) div rowHeight s)]"
    using assms sd h0 by (intro paintLoop_painting) simp_all
  also have "\<dots> = Inr [a .. min (int (length (renderItems s)) - 1)
                            (a + getScrollAreaHeight s div rowHeight s)]"
  proof (cases "nat a \<le> length (renderItems s)")
    case True
    then have "a + int (length (drop (nat a) (renderItems s))) - 1 = int (length (renderItems s)) - 1"
      using a0 by simp
    then show ?thesis by (simp add: h0 getScrollAreaHeight_def)
  next
    case False
    then have "int (length (renderItems s)) - 1 < a" "a + int (length (drop (nat a) (renderItems s))) - 1 < a"
      by simp_all
    then show ?thesis by simp
  qed
  finally show ?thesis by (simp add: a_def)
qed

lemma initial_view_inv: "scroll_inv (initial_view w h) \<and> 0 \<le> titleHeight (initial_view w h)"
  by (simp add: scroll_inv_def initial_view_def)

section \<open>A selection that has outlived its items\<close>

lemma indexOf_Nil_fold:
  "fold (\<lambda>item lastIndex. (let index = indexOf [] item in if index > lastIndex then index else lastIndex)) xs 0 = 0"
  by (induction xs) simp_all

lemma stale_selection_fields:
  "renderItems stale_selection = []" "listItems stale_selection = []"
  "selectionItems stale_selection = [7]"
  by (simp_all add: stale_selection_def removeItem_def selectFirstItem_def clearSelections_def
      addSelections_def getTopRenderOffset_def initial_view_def Let_def)

lemma added_one_item:
  "addItems [7] (initial_view 200 100)
     = Inr ((initial_view 200 100)\<lparr>listItems := [7::int], renderItems := [7]\<rparr>)"
  by (simp add: addItems_def getSearchItems_def sortItemsByColumn_def initial_view_def Let_def)

lemma firstIndex_stale: "firstIndexOfSelection (stale_selection\<lparr>oldRenderOffset := x\<rparr>) = -1"
  by (simp add: firstIndexOfSelection_def stale_selection_fields)

section \<open>The clamp where dead temporaries keep their value\<close>

text \<open>
  In a build in which a read through a dead reference still finds the value of the
  temporary, with a title height that is not negative and total heights that are
  numbers of 32 bits, every operation that scrolls keeps the offset within its bounds.
  \<open>clamp_reads_dead_temporary\<close> and \<open>removeItem_negative_title\<close> below show the first two
  conditions at work.
\<close>

lemma int32_fits: "- 2147483648 \<le> x \<Longrightarrow> x \<le> 2147483647 \<Longrightarrow> int32 x = x"
  by (simp add: int32_def)

lemma total_fits: "fits_int32 s \<Longrightarrow> getItemsTotalHeight s = int (length (renderItems s)) * rowHeight s"
  by (simp add: getItemsTotalHeight_def fits_int32_def int32_fits)

lemma bottom_eq:
  "fits_int32 s \<Longrightarrow> getBottomRenderOffset s
     = max 0 (int (length (renderItems s)) * rowHeight s - (rectHeight s - titleHeight s))"
  by (simp add: getBottomRenderOffset_def total_fits Let_def)

lemma scroll_inv_bottom:
  "fits_int32 s \<Longrightarrow> scroll_inv s = (0 \<le> renderOffset s \<and> renderOffset s \<le> getBottomRenderOffset s)"
  by (simp add: scroll_inv_def bottom_eq)

lemma bottom_nonneg: "0 \<le> getBottomRenderOffset s"
  by (simp add: getBottomRenderOffset_def Let_def)

lemma adjust_kept: "deadRead s = (\<lambda>v. v) \<Longrightarrow> adjustRenderOffset x s = max 0 (min x (getBottomRenderOffset s))"
  by (simp add: adjustRenderOffset_def)

lemma adjust_bounds:
  assumes "deadRead s = (\<lambda>v. v)"
  shows "0 \<le> adjustRenderOffset x s" "adjustRenderOffset x s \<le> getBottomRenderOffset s"
  using bottom_nonneg [of s] by (simp_all add: adjust_kept [OF assms])

lemma geometry_bottom: "geometry s' = geometry s \<Longrightarrow> getBottomRenderOffset s' = getBottomRenderOffset s"
  by (simp add: getBottomRenderOffset_def getItemsTotalHeight_def geometry_def Let_def)

lemma geometry_fits: "geometry s' = geometry s \<Longrightarrow> fits_int32 s' = fits_int32 s"
  by (simp add: fits_int32_def geometry_def)

lemma in_range_inv: "in_range s s' \<Longrightarrow> fits_int32 s \<Longrightarrow> scroll_inv s \<Longrightarrow> scroll_inv s'"
  using geometry_bottom [of s' s] geometry_fits [of s' s]
  by (auto simp: in_range_def scroll_inv_bottom)

lemma in_range_title: "in_range s s' \<Longrightarrow> titleHeight s' = titleHeight s"
  by (simp add: in_range_def geometry_def)

lemma in_range_kept: "in_range s s' \<Longrightarrow> deadRead s' = (\<lambda>v. v)"
  by (simp add: in_range_def)

lemma in_range_refl: "deadRead s = (\<lambda>v. v) \<Longrightarrow> in_range s s"
  by (simp add: in_range_def)

lemma clearSelections_fields [simp]:
  "geometry (clearSelections b s) = geometry s"
  "renderOffset (clearSelections b s) = renderOffset s"
  "renderItems (clearSelections b s) = renderItems s"
  "deadRead (clearSelections b s) = deadRead s"
  by (simp_all add: clearSelections_def geometry_def Let_def)

lemma addSelections_fields [simp]:
  "geometry (addSelections items b s) = geometry s"
  "renderOffset (addSelections items b s) = renderOffset s"
  "renderItems (addSelections items b s) = renderItems s"
  "deadRead (addSelections items b s) = deadRead s"
  by (simp_all add: addSelections_def geometry_def Let_def)

lemma shiftSelectItemsWithBound_fields [simp]:
  "geometry (shiftSelectItemsWithBound a b s) = geometry s"
  "renderOffset (shiftSelectItemsWithBound a b s) = renderOffset s"
  "deadRead (shiftSelectItemsWithBound a b s) = deadRead s"
  by (simp_all add: shiftSelectItemsWithBound_def Let_def)

lemma update_fields [simp]:
  "geometry (s\<lparr>oldRenderOffset := x\<rparr>) = geometry s"
  "geometry (s\<lparr>mouseDragScrollbar := b\<rparr>) = geometry s"
  "geometry (s\<lparr>titlePressColumn := c\<rparr>) = geometry s"
  "geometry (s\<lparr>renderOffset := y\<rparr>) = geometry s"
  by (simp_all add: geometry_def)

lemma in_range_set_offset:
  "in_range s s1 \<Longrightarrow> 0 \<le> y \<Longrightarrow> y \<le> getBottomRenderOffset s1 \<Longrightarrow> in_range s (s1\<lparr>renderOffset := y\<rparr>)"
  using geometry_bottom [of s1 s] by (simp add: in_range_def)

lemma in_range_adjust:
  "in_range s s1 \<Longrightarrow> in_range s (s1\<lparr>renderOffset := adjustRenderOffset x s1\<rparr>)"
  by (rule in_range_set_offset) (simp_all add: adjust_bounds in_range_kept)

lemma in_range_bottom:
  "in_range s s1 \<Longrightarrow> in_range s (s1\<lparr>renderOffset := getBottomRenderOffset s1\<rparr>)"
  by (rule in_range_set_offset) (simp_all add: bottom_nonneg)

lemma in_range_top:
  "in_range s s1 \<Longrightarrow> in_range s (s1\<lparr>renderOffset := getTopRenderOffset s1\<rparr>)"
  by (rule in_range_set_offset) (simp_all add: bottom_nonneg getTopRenderOffset_def)

lemma in_range_old: "in_range s s1 \<Longrightarrow> in_range s (s1\<lparr>oldRenderOffset := x\<rparr>)"
  by (simp add: in_range_def)

lemma in_range_drag: "in_range s s1 \<Longrightarrow> in_range s (s1\<lparr>mouseDragScrollbar := b\<rparr>)"
  by (simp add: in_range_def)

lemma in_range_press: "in_range s s1 \<Longrightarrow> in_range s (s1\<lparr>titlePressColumn := c\<rparr>)"
  by (simp add: in_range_def)

lemma in_range_clear: "in_range s s1 \<Longrightarrow> in_range s (clearSelections b s1)"
  by (simp add: in_range_def)

lemma in_range_add: "in_range s s1 \<Longrightarrow> in_range s (addSelections items b s1)"
  by (simp add: in_range_def)

lemma in_range_shift: "in_range s s1 \<Longrightarrow> in_range s (shiftSelectItemsWithBound a b s1)"
  by (simp add: in_range_def)

lemmas in_range_intros = in_range_old in_range_drag in_range_press in_range_clear in_range_add
  in_range_shift in_range_adjust in_range_bottom in_range_top

lemma selectFirstItem_in_range: "in_range s s1 \<Longrightarrow> in_range s (selectFirstItem s1)"
  by (simp add: selectFirstItem_def Let_def in_range_intros)

lemma selectLastItem_in_range: "in_range s s1 \<Longrightarrow> in_range s (selectLastItem s1)"
  by (simp add: selectLastItem_def Let_def in_range_intros)

lemma selectAllItems_in_range: "in_range s s1 \<Longrightarrow> in_range s (selectAllItems s1)"
  by (simp add: selectAllItems_def Let_def in_range_intros)

lemma selectNextItemWithOffset_in_range:
  "selectNextItemWithOffset n s = Inr s' \<Longrightarrow> in_range s s \<Longrightarrow> in_range s s'"
  by (auto simp: selectNextItemWithOffset_def Let_def in_range_intros
      selectFirstItem_in_range split: if_splits sum.splits)

lemma selectPrevItemWithOffset_in_range:
  "selectPrevItemWithOffset n s = Inr s' \<Longrightarrow> in_range s s \<Longrightarrow> in_range s s'"
  by (auto simp: selectPrevItemWithOffset_def Let_def in_range_intros
      selectFirstItem_in_range split: if_splits sum.splits)

lemma shiftSelectNextItemWithOffset_in_range:
  "shiftSelectNextItemWithOffset n s = Inr s' \<Longrightarrow> in_range s s \<Longrightarrow> in_range s s'"
  by (auto simp: shiftSelectNextItemWithOffset_def Let_def in_range_intros
      selectFirstItem_in_range split: if_splits sum.splits)

lemma shiftSelectPrevItemWithOffset_in_range:
  "shiftSelectPrevItemWithOffset n s = Inr s' \<Longrightarrow> in_range s s \<Longrightarrow> in_range s s'"
  by (auto simp: shiftSelectPrevItemWithOffset_def Let_def in_range_intros
      selectFirstItem_in_range split: if_splits sum.splits)

lemma shiftSelectToEnd_in_range: "in_range s s \<Longrightarrow> in_range s (shiftSelectToEnd s)"
  by (simp add: shiftSelectToEnd_def Let_def in_range_intros selectLastItem_in_range)

lemma shiftSelectToHome_in_range: "in_range s s \<Longrightarrow> in_range s (shiftSelectToHome s)"
  by (simp add: shiftSelectToHome_def Let_def in_range_intros selectFirstItem_in_range)

lemma wheelEvent_in_range: "wheelEvent d s = Inr s' \<Longrightarrow> in_range s s \<Longrightarrow> in_range s s'"
  by (auto simp: wheelEvent_def Let_def in_range_intros split: if_splits sum.splits)

lemma ctrlScroll_in_range:
  "in_range s s \<Longrightarrow> in_range s (ctrlScrollPageUp s)"
  "in_range s s \<Longrightarrow> in_range s (ctrlScrollPageDown s)"
  "in_range s s \<Longrightarrow> in_range s (ctrlScrollToHome s)"
  "in_range s s \<Longrightarrow> in_range s (ctrlScrollToEnd s)"
  by (simp_all add: ctrlScrollPageUp_def ctrlScrollPageDown_def ctrlScrollToHome_def
      ctrlScrollToEnd_def in_range_intros)

lemma mouseMoveEvent_in_range: "mouseMoveEvent my s = Inr s' \<Longrightarrow> in_range s s \<Longrightarrow> in_range s s'"
  by (auto simp: mouseMoveEvent_def in_range_intros split: if_splits sum.splits)

lemma pressScrollArea_in_range: "pressScrollArea my s = Inr s' \<Longrightarrow> in_range s s \<Longrightarrow> in_range s s'"
  by (auto simp: pressScrollArea_def in_range_intros split: if_splits sum.splits)

lemma mouseReleaseEvent_in_range: "in_range s s \<Longrightarrow> in_range s (mouseReleaseEvent s)"
  by (simp add: mouseReleaseEvent_def in_range_intros)

lemma scroll_inv_adjusted:
  assumes "deadRead s = (\<lambda>v. v)" "fits_int32 s"
  shows "scroll_inv (s\<lparr>renderOffset := adjustRenderOffset x s\<rparr>)"
proof -
  let ?s' = "s\<lparr>renderOffset := adjustRenderOffset x s\<rparr>"
  have g: "geometry ?s' = geometry s" by simp
  have "fits_int32 ?s'" using assms(2) geometry_fits [OF g] by simp
  then show ?thesis
    using adjust_bounds [OF assms(1), of x] geometry_bottom [OF g]
    by (simp add: scroll_inv_bottom)
qed

lemma removeItem_inv:
  assumes "scroll_inv s" "0 \<le> titleHeight s" "deadRead s = (\<lambda>v. v)" "fits_int32 (removeItem item s)"
  shows "scroll_inv (removeItem item s)"
proof (cases item)
  case None
  with assms show ?thesis by (simp add: removeItem_def)
next
  case (Some x)
  define s2 where "s2 = s\<lparr>listItems := remove1 x (listItems s), renderItems := remove1 x (renderItems s)\<rparr>"
  have off: "renderOffset s2 = renderOffset s" and th: "titleHeight s2 = titleHeight s"
    and kept: "deadRead s2 = (\<lambda>v. v)"
    using assms(3) by (simp_all add: s2_def)
  show ?thesis
  proof (cases "renderOffset s2 \<ge> getItemsTotalHeight s2 - rectHeight s2")
    case True
    with Some have eq: "removeItem item s = s2\<lparr>renderOffset := adjustRenderOffset (renderOffset s2 - rowHeight s2) s2\<rparr>"
      by (simp add: removeItem_def Let_def s2_def)
    have "geometry (s2\<lparr>renderOffset := adjustRenderOffset (renderOffset s2 - rowHeight s2) s2\<rparr>) = geometry s2"
      by simp
    with assms(4) have "fits_int32 s2"
      unfolding eq using geometry_fits by blast
    with kept show ?thesis
      unfolding eq by (rule scroll_inv_adjusted)
  next
    case False
    with Some have eq: "removeItem item s = s2"
      by (simp add: removeItem_def Let_def s2_def)
    with assms(4) have fits: "fits_int32 s2" by simp
    from False have "renderOffset s2 < int (length (renderItems s2)) * rowHeight s2 - rectHeight s2"
      by (simp add: total_fits [OF fits])
    with assms off th show ?thesis
      unfolding eq scroll_inv_def by simp
  qed
qed

lemma removeItem_kept:
  "titleHeight (removeItem item s) = titleHeight s" "deadRead (removeItem item s) = deadRead s"
  by (cases item; simp add: removeItem_def Let_def)+

lemma case_sum_InrE:
  assumes "(case m of Inl e \<Rightarrow> Inl e | Inr a \<Rightarrow> f a) = Inr r"
  obtains a where "m = Inr a" "f a = Inr r"
  using assms by (cases m) auto

lemma sortItemsByColumn_kept:
  "sortItemsByColumn c d s = Inr s' \<Longrightarrow> titleHeight s' = titleHeight s \<and> deadRead s' = deadRead s"
  by (auto simp: sortItemsByColumn_def split: option.splits if_splits)

lemma refreshItems_inv:
  assumes "refreshItems sameAs items s = Inr s'" "deadRead s = (\<lambda>v. v)" "fits_int32 s'"
  shows "scroll_inv s' \<and> titleHeight s' = titleHeight s \<and> deadRead s' = (\<lambda>v. v)"
  using assms(1) unfolding refreshItems_def Let_def
proof (elim case_sum_InrE, goal_cases)
  case (1 s4)
  define s7 where "s7 = (addSelections
        (filter (\<lambda>item. list_ex (\<lambda>selectionItem. sameAs item selectionItem) (selectionItems s)) items)
        False (clearSelections True s4))
      \<lparr>lastSelectItem := (case lastSelectItem s of None \<Rightarrow> None | Some l \<Rightarrow> find (\<lambda>item. sameAs item l) items)\<rparr>"
  from 1(2) have s': "s' = s7\<lparr>renderOffset := adjustRenderOffset (renderOffset s7) s7\<rparr>"
    unfolding s7_def by simp
  have "titleHeight s4 = titleHeight s \<and> deadRead s4 = deadRead s"
    using 1(1) by (auto simp: clearItems_def dest: sortItemsByColumn_kept split: if_splits)
  moreover have "titleHeight s7 = titleHeight s4 \<and> deadRead s7 = deadRead s4"
    by (simp add: s7_def addSelections_def clearSelections_def Let_def)
  ultimately have kept: "titleHeight s7 = titleHeight s" "deadRead s7 = (\<lambda>v. v)"
    using assms(2) by simp_all
  have "geometry s' = geometry s7" by (simp add: s')
  with assms(3) have "fits_int32 s7" using geometry_fits by blast
  with kept(2) have "scroll_inv s'"
    unfolding s' by (rule scroll_inv_adjusted)
  with kept show ?thesis by (simp add: s')
qed

lemma perform_inv:
  assumes run: "perform sameAs x s = Inr s'"
    and inv: "scroll_inv s" and title: "0 \<le> titleHeight s"
    and kept: "deadRead s = (\<lambda>v. v)" and fits: "fits_int32 s" "fits_int32 s'"
  shows "scroll_inv s' \<and> 0 \<le> titleHeight s' \<and> deadRead s' = (\<lambda>v. v)"
proof -
  note refl = in_range_refl [OF kept]
  have by_range: "scroll_inv t \<and> 0 \<le> titleHeight t \<and> deadRead t = (\<lambda>v. v)" if "in_range s t" for t
    using that inv title fits(1) in_range_inv [of s t] in_range_title [of s t] in_range_kept [of s t]
    by simp
  show ?thesis
  proof (cases x)
    case (Wheel d)
    with run show ?thesis using by_range [OF wheelEvent_in_range [OF _ refl, of d s']] by simp
  next
    case CtrlScrollPageUp
    with run show ?thesis using by_range [OF ctrlScroll_in_range(1) [OF refl]] by auto
  next
    case CtrlScrollPageDown
    with run show ?thesis using by_range [OF ctrlScroll_in_range(2) [OF refl]] by auto
  next
    case CtrlScrollToHome
    with run show ?thesis using by_range [OF ctrlScroll_in_range(3) [OF refl]] by auto
  next
    case CtrlScrollToEnd
    with run show ?thesis using by_range [OF ctrlScroll_in_range(4) [OF refl]] by auto
  next
    case (PressScrollArea my)
    with run show ?thesis using by_range [OF pressScrollArea_in_range [OF _ refl, of my s']] by simp
  next
    case (MouseMove my)
    with run show ?thesis using by_range [OF mouseMoveEvent_in_range [OF _ refl, of my s']] by simp
  next
    case MouseRelease
    with run show ?thesis using by_range [OF mouseReleaseEvent_in_range [OF refl]] by auto
  next
    case (RemoveItem item)
    with run have s': "s' = removeItem item s" by simp
    with removeItem_inv [OF inv title kept, of item] fits(2) removeItem_kept [of item s] title kept
    show ?thesis by simp
  next
    case (RefreshItems items)
    with run have "refreshItems sameAs items s = Inr s'" by simp
    from refreshItems_inv [OF this kept fits(2)] title show ?thesis by simp
  next
    case SelectAllItems
    with run show ?thesis using by_range [OF selectAllItems_in_range [OF refl]] by auto
  next
    case SelectFirstItem
    with run show ?thesis using by_range [OF selectFirstItem_in_range [OF refl]] by auto
  next
    case SelectLastItem
    with run show ?thesis using by_range [OF selectLastItem_in_range [OF refl]] by auto
  next
    case SelectNextItem
    with run show ?thesis
      using by_range [OF selectNextItemWithOffset_in_range [OF _ refl, of 1 s']]
      by (simp add: selectNextItem_def)
  next
    case SelectPrevItem
    with run show ?thesis
      using by_range [OF selectPrevItemWithOffset_in_range [OF _ refl, of 1 s']]
      by (simp add: selectPrevItem_def)
  next
    case ScrollPageDown
    with run show ?thesis
      using by_range [OF selectNextItemWithOffset_in_range
          [OF _ refl, of "getScrollAreaHeight s sdiv rowHeight s" s']]
      by (simp add: scrollPageDown_def split: if_splits)
  next
    case ScrollPageUp
    with run show ?thesis
      using by_range [OF selectPrevItemWithOffset_in_range
          [OF _ refl, of "getScrollAreaHeight s sdiv rowHeight s" s']]
      by (simp add: scrollPageUp_def split: if_splits)
  next
    case ShiftSelectToNext
    with run show ?thesis
      using by_range [OF shiftSelectNextItemWithOffset_in_range [OF _ refl, of 1 s']] by_range [OF refl]
      by (auto simp: shiftSelectToNext_def split: if_splits)
  next
    case ShiftSelectToPrev
    with run show ?thesis
      using by_range [OF shiftSelectPrevItemWithOffset_in_range [OF _ refl, of 1 s']] by_range [OF refl]
      by (auto simp: shiftSelectToPrev_def split: if_splits)
  next
    case ShiftSelectPageDown
    with run show ?thesis
      using by_range [OF shiftSelectNextItemWithOffset_in_range
          [OF _ refl, of "getScrollAreaHeight s sdiv rowHeight s" s']] by_range [OF refl]
      by (auto simp: shiftSelectPageDown_def split: if_splits)
  next
    case ShiftSelectPageUp
    with run show ?thesis
      using by_range [OF shiftSelectPrevItemWithOffset_in_range
          [OF _ refl, of "getScrollAreaHeight s sdiv rowHeight s" s']] by_range [OF refl]
      by (auto simp: shiftSelectPageUp_def split: if_splits)
  next
    case ShiftSelectToEnd
    with run show ?thesis using by_range [OF shiftSelectToEnd_in_range [OF refl]] by auto
  next
    case ShiftSelectToHome
    with run show ?thesis using by_range [OF shiftSelectToHome_in_range [OF refl]] by auto
  qed
qed

lemma scroll_inv_where_reads_are_kept:
  assumes "scroll_inv s" "0 \<le> titleHeight s" "deadRead s = (\<lambda>v. v)" "fits_int32 s"
    and "\<forall>s' \<in> set (states_after sameAs ops s). fits_int32 s'"
  shows "\<forall>s' \<in> set (states_after sameAs ops s). scroll_inv s'"
  using assms
proof (induction ops arbitrary: s)
  case Nil
  then show ?case by simp
next
  case (Cons x xs)
  show ?case
  proof (cases "perform sameAs x s")
    case (Inl e)
    then show ?thesis by simp
  next
    case (Inr t)
    with Cons.prems(5) have fits: "fits_int32 t" "\<forall>s' \<in> set (states_after sameAs xs t). fits_int32 s'"
      by simp_all
    from perform_inv [OF Inr Cons.prems(1,2,3,4) fits(1)]
    have t: "scroll_inv t" "0 \<le> titleHeight t" "deadRead t = (\<lambda>v. v)" by simp_all
    from Cons.IH [OF t fits] t(1) Inr show ?thesis by simp
  qed
qed

lemma reused_stack_run:
  "map renderOffset (states_after (=) [CtrlScrollPageUp] reused_stack) = [32767]"
  "map renderOffset (states_after (=) [Wheel 120] reused_stack) = [32767]"
  "map renderOffset (states_after (=) [CtrlScrollToEnd, CtrlScrollPageDown] reused_stack) = [260, 32767]"
  "getBottomRenderOffset reused_stack = 260"
  by code_simp+

lemma removeItem_negative_title:
  "scroll_inv negative_title
   \<and> renderOffset (removeItem (Some 9) negative_title) = 50
   \<and> length (renderItems (removeItem (Some 9) negative_title)) = 9
   \<and> \<not> scroll_inv (removeItem (Some 9) negative_title)"
  by code_simp

section \<open>The page indicator\<close>

text \<open>
  Claim C9, as the code has it. \<^verbatim>\<open>setCurrentPage(-1)\<close> is accepted, and sets the current
  page to -1 so that no dot is highlighted, for every page count that is not negative.
  \<^verbatim>\<open>setPageCount\<close> stores any \<^verbatim>\<open>int\<close>: for a negative page count every index is ignored,
  -1 included. In general an index from -1 up to the page count less one is stored, and
  an index below -1 or at least the page count is ignored.
\<close>

theorem setCurrentPage_minus_one:
  "(0 \<le> pageCount p \<longrightarrow> setCurrentPage (-1) p = p\<lparr>currentPage := -1\<rparr>)
   \<and> (pageCount p < 0 \<longrightarrow> setCurrentPage index p = p)
   \<and> (-1 \<le> index \<and> index < pageCount p \<longrightarrow> setCurrentPage index p = p\<lparr>currentPage := index\<rparr>)
   \<and> (index < -1 \<or> pageCount p \<le> index \<longrightarrow> setCurrentPage index p = p)"
  by (auto simp: setCurrentPage_def)

theorem setCurrentPage_minus_one_witness:
  "0 \<le> pageCount (setPageCount 0 initial_indicator)
   \<and> currentPage (setCurrentPage (-1) (setPageCount 0 initial_indicator)) = -1
   \<and> pageCount (setPageCount (-5) initial_indicator) < 0
   \<and> setCurrentPage (-1) (setPageCount (-5) initial_indicator) = setPageCount (-5) initial_indicator
   \<and> -1 \<le> (2::int) \<and> 2 < pageCount initial_indicator
   \<and> currentPage (setCurrentPage 2 initial_indicator) = 2
   \<and> pageCount initial_indicator \<le> 3
   \<and> setCurrentPage 3 initial_indicator = initial_indicator
   \<and> setCurrentPage (-2) initial_indicator = initial_indicator"
  using setCurrentPage_minus_one [of "setPageCount 0 initial_indicator" "-1"]
    setCurrentPage_minus_one [of "setPageCount (-5) initial_indicator" "-1"]
    setCurrentPage_minus_one [of initial_indicator 2]
    setCurrentPage_minus_one [of initial_indicator 3]
    setCurrentPage_minus_one [of initial_indicator "-2"]
  by (simp add: setPageCount_def initial_indicator_def)

text \<open>
  The claim as the specification states it, for every page count, fails at the page
  count -5: the current page stays 1.
\<close>

theorem setCurrentPage_minus_one_counterexample:
  "pageCount (setPageCount (-5) initial_indicator) = -5
   \<and> currentPage (setPageCount (-5) initial_indicator) = 1
   \<and> currentPage (setCurrentPage (-1) (setPageCount (-5) initial_indicator)) = 1
   \<and> currentPage (setCurrentPage (-1) (setPageCount (-5) initial_indicator)) \<noteq> -1"
  by (simp add: setCurrentPage_def setPageCount_def initial_indicator_def)

text \<open>
  Claim C8. An index out of range is ignored without a fault and without a change of
  state: \<^verbatim>\<open>setCurrentPage\<close> with an index below -1 or at least the page count returns the
  indicator as it was, and \<^verbatim>\<open>sortItemsByColumn\<close>, when the number of registered sort
  algorithms differs from the number of columns, returns the view as it was, its render
  items included.
\<close>

theorem out_of_range_ignored:
  "(index < -1 \<or> pageCount p \<le> index \<longrightarrow> setCurrentPage index p = p)
   \<and> (sortingAlgorithms s = Some algs \<and> length algs \<noteq> length (columnTitles s)
        \<longrightarrow> sortItemsByColumn column descendingSort s = Inr s)"
  by (simp add: setCurrentPage_def sortItemsByColumn_def)

theorem out_of_range_ignored_witness:
  "pageCount initial_indicator \<le> 3
   \<and> setCurrentPage 3 initial_indicator = initial_indicator
   \<and> sortingAlgorithms (one_column_items\<lparr>columnTitles := [''a'', ''b'']\<rparr>) = Some [by_value]
   \<and> length [by_value] \<noteq> length (columnTitles (one_column_items\<lparr>columnTitles := [''a'', ''b'']\<rparr>))
   \<and> renderItems (one_column_items\<lparr>columnTitles := [''a'', ''b'']\<rparr>) = [3, 2, 1]
   \<and> sortItemsByColumn 0 False (one_column_items\<lparr>columnTitles := [''a'', ''b'']\<rparr>)
       = Inr (one_column_items\<lparr>columnTitles := [''a'', ''b'']\<rparr>)"
  using out_of_range_ignored [of 3 initial_indicator
      "one_column_items\<lparr>columnTitles := [''a'', ''b'']\<rparr>" "[by_value]" 0 False]
  by (simp add: initial_indicator_def one_column_items_eq one_column_fields)

section \<open>Searching\<close>

text \<open>
  Claim C4. In every state with a search string that is not empty, \<^verbatim>\<open>search("")\<close> makes
  the render items the list of all items, in the order of that list (the order of
  insertion), and not in the order of the sort column; the search string is then empty.
\<close>

theorem search_empty_restores_insertion_order:
  assumes "searchContent s \<noteq> []"
  shows "renderItems (search [] s) = listItems s \<and> searchContent (search [] s) = []"
  using assms by (simp add: search_def Let_def)

theorem search_empty_restores_insertion_order_witness:
  "searchContent (search ''x'' (setSearchAlgorithm (Some even_items) one_column_items)) \<noteq> []
   \<and> renderItems (search ''x'' (setSearchAlgorithm (Some even_items) one_column_items)) = [2]
   \<and> renderItems (search [] (search ''x'' (setSearchAlgorithm (Some even_items) one_column_items)))
       = [1, 2, 3]"
  using search_empty_restores_insertion_order
    [of "search ''x'' (setSearchAlgorithm (Some even_items) one_column_items)"]
  by (simp add: search_def setSearchAlgorithm_def getSearchItems_def even_items_def
      one_column_items_eq Let_def)

text \<open>
  Claim C10. With no search algorithm registered, \<^verbatim>\<open>getSearchItems\<close> returns the items
  it is given, whatever the search string. So \<^verbatim>\<open>search\<close> makes the render items the list
  of all items, and \<^verbatim>\<open>addItems\<close>, when it returns, has appended the new items to the list
  of all items and added each of them once to the render items: if the two lists had the
  same members before, they have the same members after.
\<close>

theorem no_search_algorithm_identity:
  assumes "searchAlgorithm s = None"
  shows "getSearchItems items s = items
         \<and> renderItems (search content s) = listItems s
         \<and> (\<forall>s'. addItems items s = Inr s' \<longrightarrow>
               listItems s' = listItems s @ items
               \<and> mset (renderItems s') = mset (renderItems s) + mset items
               \<and> (set (renderItems s) = set (listItems s) \<longrightarrow> set (renderItems s') = set (listItems s')))"
proof -
  have a: "getSearchItems items s = items"
    using assms by (simp add: getSearchItems_def)
  have b: "renderItems (search content s) = listItems s"
    using assms by (simp add: search_def getSearchItems_def Let_def)
  have c: "listItems s' = listItems s @ items \<and> mset (renderItems s') = mset (renderItems s) + mset items"
    if run: "addItems items s = Inr s'" for s'
  proof (cases "defaultSortingColumn s = -1")
    case True
    with run assms show ?thesis
      by (auto simp: addItems_def getSearchItems_def Let_def)
  next
    case False
    define s2 where "s2 = s\<lparr>listItems := listItems s @ items, renderItems := renderItems s @ items\<rparr>"
    from run False assms
    have sorted: "sortItemsByColumn (defaultSortingColumn s) (defaultSortingOrder s) s2 = Inr s'"
      by (simp add: addItems_def getSearchItems_def Let_def s2_def)
    have "listItems s' = listItems (s2\<lparr>renderItems := renderItems s'\<rparr>)"
      using sortItemsByColumn_rest [OF sorted] by simp
    then have "listItems s' = listItems s @ items"
      by (simp add: s2_def)
    moreover have "mset (renderItems s') = mset (renderItems s) + mset items"
      using sortItemsByColumn_renderItems [OF sorted] by (simp add: s2_def)
    ultimately show ?thesis by simp
  qed
  have d: "set (renderItems s') = set (listItems s')"
    if run: "addItems items s = Inr s'" and same: "set (renderItems s) = set (listItems s)" for s'
  proof -
    from c [OF run] have "set_mset (mset (renderItems s')) = set (renderItems s) \<union> set items"
      and "set (listItems s') = set (listItems s) \<union> set items" by simp_all
    with same show ?thesis by simp
  qed
  from a b c d show ?thesis by blast
qed

theorem no_search_algorithm_identity_witness:
  "searchAlgorithm one_column_items = None
   \<and> getSearchItems [4] (one_column_items\<lparr>searchContent := ''x''\<rparr>) = [4]
   \<and> renderItems (search ''x'' one_column_items) = [1, 2, 3]
   \<and> addItems [4] one_column_items
       = Inr (one_column_items\<lparr>listItems := [1, 2, 3, 4], renderItems := [4, 3, 2, 1]\<rparr>)
   \<and> set (renderItems (one_column_items\<lparr>listItems := [1, 2, 3, 4], renderItems := [4, 3, 2, 1]\<rparr>))
       = set (listItems (one_column_items\<lparr>listItems := [1, 2, 3, 4], renderItems := [4, 3, 2, 1]\<rparr>))"
proof -
  have none: "searchAlgorithm one_column_items = None"
    by (simp add: one_column_items_eq one_column_fields)
  have none': "searchAlgorithm (one_column_items\<lparr>searchContent := ''x''\<rparr>) = None"
    by (simp add: one_column_items_eq one_column_fields)
  have run: "addItems [4] one_column_items
      = Inr (one_column_items\<lparr>listItems := [1, 2, 3, 4], renderItems := [4, 3, 2, 1]\<rparr>)"
    by (simp add: addItems_def getSearchItems_def sortItemsByColumn_def one_column_items_eq
        one_column_fields Let_def std_sort_def by_value_def)
  have "set (renderItems (one_column_items\<lparr>listItems := [1, 2, 3, 4], renderItems := [4, 3, 2, 1]\<rparr>))
      = set (listItems (one_column_items\<lparr>listItems := [1, 2, 3, 4], renderItems := [4, 3, 2, 1]\<rparr>))"
    using no_search_algorithm_identity [OF none, of "[4]" "''x''"] run
    by (auto simp: one_column_items_eq)
  moreover have "getSearchItems [4] (one_column_items\<lparr>searchContent := ''x''\<rparr>) = [4]"
    using no_search_algorithm_identity [OF none', of "[4]" "''x''"] by simp
  moreover have "renderItems (search ''x'' one_column_items) = [1, 2, 3]"
    using no_search_algorithm_identity [OF none, of "[4]" "''x''"] by (simp add: one_column_items_eq)
  ultimately show ?thesis using none run by blast
qed


section \<open>Removing an item\<close>

text \<open>
  Claim C2, as the code has it. \<^verbatim>\<open>removeItem\<close> of an item removes the first occurrence
  of the item from the list of all items and from the render items, and leaves the
  selection and the last selected item as they were: a selected item that is removed
  stays in the selection, and no other selected item changes.
\<close>

theorem removeItem_leaves_selection:
  "selectionItems (removeItem (Some x) s) = selectionItems s
   \<and> lastSelectItem (removeItem (Some x) s) = lastSelectItem s
   \<and> listItems (removeItem (Some x) s) = remove1 x (listItems s)
   \<and> renderItems (removeItem (Some x) s) = remove1 x (renderItems s)"
  by (simp add: removeItem_def Let_def)

text \<open>
  The claim as the specification states it fails: in the list of the items 1, 2, 3 with
  the first render item (3) selected, removing item 3 takes it out of the render items
  and leaves it in the selection.
\<close>

theorem removeItem_selection_counterexample:
  "3 \<in> set (selectionItems (selectFirstItem one_column_items))
   \<and> \<not> (3 \<notin> set (selectionItems (removeItem (Some 3) (selectFirstItem one_column_items))))
   \<and> 3 \<notin> set (renderItems (removeItem (Some 3) (selectFirstItem one_column_items)))"
  by (simp add: selected_first_eq removeItem_def one_column_items_fields Let_def)

section \<open>Selecting the next item with no render item\<close>

text \<open>
  Claim C7 where it fails. With no render item and a selection that is not empty,
  \<^verbatim>\<open>selectNextItem\<close> does not return: the loop over the selection starts from the index 0
  and finds no greater one, the test against -1 passes, the new index is the lesser of
  -1 and 1, and the render items are indexed at -1. Such a state is reached by adding
  an item, selecting it and removing it, since \<^verbatim>\<open>removeItem\<close> leaves the selection alone.
  \<^verbatim>\<open>selectPrevItem\<close>, whose loop starts from the number of render items and does reach
  -1, returns in the same state.
\<close>

theorem selectNextItem_without_render_items:
  assumes "renderItems s = []" and "selectionItems s \<noteq> []"
  shows "selectNextItem s = Inl IndexOutOfRange"
proof -
  have "renderItems (s\<lparr>oldRenderOffset := renderOffset s\<rparr>) = []"
    using assms(1) by simp
  then have "lastIndexOfSelection (s\<lparr>oldRenderOffset := renderOffset s\<rparr>) = 0"
    unfolding lastIndexOfSelection_def by (simp only: indexOf_Nil_fold)
  with assms show ?thesis
    by (simp add: selectNextItem_def selectNextItemWithOffset_def Let_def itemAt_def
        clearSelections_def)
qed

theorem selectNextItem_without_render_items_witness:
  "addItems [7] (initial_view 200 100)
     = Inr ((initial_view 200 100)\<lparr>listItems := [7::int], renderItems := [7]\<rparr>)
   \<and> renderItems stale_selection = []
   \<and> selectionItems stale_selection = [7]
   \<and> selectNextItem stale_selection = Inl IndexOutOfRange
   \<and> selectPrevItem stale_selection
       = Inr (stale_selection\<lparr>oldRenderOffset := renderOffset stale_selection\<rparr>)"
proof -
  have a: "renderItems stale_selection = []" and b: "selectionItems stale_selection \<noteq> []"
    by (simp_all add: stale_selection_fields)
  have "selectPrevItem stale_selection
       = Inr (stale_selection\<lparr>oldRenderOffset := renderOffset stale_selection\<rparr>)"
    by (simp add: selectPrevItem_def selectPrevItemWithOffset_def Let_def firstIndex_stale
        stale_selection_fields)
  with selectNextItem_without_render_items [OF a b] added_one_item stale_selection_fields
  show ?thesis by simp
qed

text \<open>
  With an empty selection \<^verbatim>\<open>selectNextItem\<close> returns without a fault. When there is no
  render item it changes nothing but the record of the old offset, which it sets to the
  offset, and the selection stays empty; when there are render items it selects the
  first of them and scrolls to the top.
\<close>

lemma selectNextItem_without_selection:
  assumes "selectionItems s = []"
  shows "(renderItems s = [] \<longrightarrow> selectNextItem s = Inr (s\<lparr>oldRenderOffset := renderOffset s\<rparr>))
         \<and> (renderItems s \<noteq> [] \<longrightarrow>
              (\<exists>s'. selectNextItem s = Inr s'
                    \<and> selectionItems s' = [hd (renderItems s)]
                    \<and> renderItems s' = renderItems s \<and> listItems s' = listItems s
                    \<and> renderOffset s' = 0))"
  using assms
  by (simp add: selectNextItem_def selectNextItemWithOffset_def selectFirstItem_def
      clearSelections_def addSelections_def getTopRenderOffset_def Let_def)

lemma selectNextItem_without_selection_example:
  "selectionItems (initial_view 200 100 :: int view) = []
   \<and> renderItems (initial_view 200 100 :: int view) = []
   \<and> selectNextItem (initial_view 200 100 :: int view) = Inr (initial_view 200 100)
   \<and> selectionItems one_column_items = []
   \<and> renderItems one_column_items = [3, 2, 1]
   \<and> selectNextItem one_column_items
       = Inr (one_column_items\<lparr>selectionItems := [3], lastSelectItem := Some 3\<rparr>)"
proof -
  have e: "selectionItems (initial_view 200 100 :: int view) = []"
    and r: "renderItems (initial_view 200 100 :: int view) = []"
    by (simp_all add: initial_view_def)
  have u: "(initial_view 200 100 :: int view)
             \<lparr>oldRenderOffset := renderOffset (initial_view 200 100 :: int view)\<rparr>
           = initial_view 200 100"
    by (simp add: initial_view_def)
  have a: "selectNextItem (initial_view 200 100 :: int view) = Inr (initial_view 200 100)"
    using selectNextItem_without_selection [OF e] r u by simp
  have b: "selectNextItem one_column_items
       = Inr (one_column_items\<lparr>selectionItems := [3], lastSelectItem := Some 3\<rparr>)"
    by (simp add: selectNextItem_def selectNextItemWithOffset_def selectFirstItem_def
      clearSelections_def addSelections_def getTopRenderOffset_def
      one_column_items_eq one_column_def setColumnSortingAlgorithms_def initial_view_def Let_def)
  from e r a b one_column_items_fields show ?thesis by simp
qed

section \<open>The jump of the scrollbar\<close>

text \<open>
  Claim C6, as the code has it. In the example (a viewport of 100 pixels, rows of 20
  pixels, 50 items, so 1000 pixels of items) the thumb is 30 pixels high and starts at 0.
  A press beside the thumb at y = 65 is where
  (pointerY - thumbHeight / 2 - titleHeight) / scrollAreaHeight is one half, and it sets
  the offset to one half of the total height of the items, 500, which the clamp to the
  range from 0 to 900 leaves alone.
\<close>

theorem jump_scroll_example:
  "getItemsTotalHeight fifty_rows = 1000
   \<and> getScrollAreaHeight fifty_rows = 100
   \<and> getBottomRenderOffset fifty_rows = 900
   \<and> getScrollbarHeight fifty_rows = Inr 30
   \<and> getScrollbarY fifty_rows = Inr 0
   \<and> real_of_int (65 - 30 sdiv 2 - titleHeight fifty_rows)
        / real_of_int (getScrollAreaHeight fifty_rows) = 1 / 2
   \<and> pressScrollArea 65 fifty_rows = Inr (fifty_rows\<lparr>renderOffset := 500\<rparr>)"
  by (simp add: fifty_rows_geometry fifty_rows_offsets pressScrollArea_def signed_divide_int_def)

text \<open>
  The offset 450 of the specification is not what the press gives, neither where the
  fraction of the mapping is one half (y = 65) nor at the middle of the track (y = 50).
\<close>

theorem jump_scroll_counterexample:
  "real_of_int (65 - 30 sdiv 2 - titleHeight fifty_rows)
        / real_of_int (getScrollAreaHeight fifty_rows) = 1 / 2
   \<and> pressScrollArea 65 fifty_rows \<noteq> Inr (fifty_rows\<lparr>renderOffset := 450\<rparr>)
   \<and> pressScrollArea 50 fifty_rows \<noteq> Inr (fifty_rows\<lparr>renderOffset := 450\<rparr>)"
  by (simp add: fifty_rows_geometry fifty_rows_offsets pressScrollArea_def signed_divide_int_def
      fifty_rows_offset_differs)

section \<open>The rows that are painted\<close>

text \<open>
  Claim C3 at an offset that is not a multiple of the row height. Ten rows of 36 pixels
  in a viewport of 100 pixels, scrolled by 10 pixels: the viewport shows the pixels 10 to
  110 of the items, the range of the specification is rows 0 to 3, and row 3 starts at
  pixel 108, inside the viewport. The loop draws rows 0, 1 and 2 and leaves, since three
  rows are 108 pixels and that exceeds the height of the widget. A press at y = 99 is
  still a press on row 3. Lemma \<open>paintedRows_eq\<close> gives the rows drawn in general.
\<close>

theorem paint_misses_partly_visible_row:
  "scroll_inv ten_rows
   \<and> paintedRows ten_rows = Inr [0, 1, 2]
   \<and> specRows ten_rows = [0, 1, 2, 3]
   \<and> 3 * rowHeight ten_rows < renderOffset ten_rows + getScrollAreaHeight ten_rows
   \<and> pressItemIndex 99 ten_rows = Inr 3"
  by (simp add: paintedRows_def specRows_def scroll_inv_def getScrollAreaHeight_def
      pressItemIndex_def ten_rows_def initial_view_def signed_divide_int_def upt_rec)


section \<open>Pressing a column title\<close>




section \<open>The invariant of the offset\<close>

text \<open>
  Claim C1 where it fails. \<^verbatim>\<open>adjustRenderOffset\<close> returns the offset through a reference
  that \<^verbatim>\<open>std::max\<close> and \<^verbatim>\<open>std::min\<close> hand back; whenever the clamp has to change the
  offset, and at the offset 0, the reference is to a temporary that has died. In the ten
  rows scrolled by 10 pixels, in a build that has reused that memory, the offset is
  within its bounds; a page up with the control key asks for the clamp of -90 and stores
  32767, far above the bound 260. So do a turn of the wheel upwards, and a page down
  from the bottom.
\<close>

theorem clamp_reads_dead_temporary:
  "scroll_inv reused_stack \<and> 0 \<le> titleHeight reused_stack
   \<and> adjustRenderOffset (renderOffset reused_stack - getScrollAreaHeight reused_stack) reused_stack = 32767
   \<and> renderOffset (ctrlScrollPageUp reused_stack) = 32767
   \<and> \<not> scroll_inv (ctrlScrollPageUp reused_stack)
   \<and> map renderOffset (states_after (=) [CtrlScrollPageUp] reused_stack) = [32767]
   \<and> map renderOffset (states_after (=) [Wheel 120] reused_stack) = [32767]
   \<and> map renderOffset (states_after (=) [CtrlScrollToEnd, CtrlScrollPageDown] reused_stack) = [260, 32767]"
proof -
  have "scroll_inv reused_stack" "0 \<le> titleHeight reused_stack"
    by (simp_all add: scroll_inv_def reused_stack_def ten_rows_def initial_view_def)
  moreover have a: "adjustRenderOffset (renderOffset reused_stack - getScrollAreaHeight reused_stack) reused_stack = 32767"
    by code_simp
  moreover have "renderOffset (ctrlScrollPageUp reused_stack) = 32767"
    using a by (simp add: ctrlScrollPageUp_def)
  moreover have "\<not> scroll_inv (ctrlScrollPageUp reused_stack)"
    using a by (simp add: ctrlScrollPageUp_def scroll_inv_def)
       (simp add: reused_stack_def ten_rows_def initial_view_def)
  ultimately show ?thesis using reused_stack_run by simp
qed

end
